theory Spec2Isabelle
  imports Complex_Main "HOL-Library.Multiset" "HOL-Library.Char_ord" "HOL-Library.List_Lexorder"
    "HOL-Library.Product_Lexorder"
begin

section \<open>Values, exceptions and the library operations the converter relies on\<close>

text \<open>
  The program \<^verbatim>\<open>sensor_converter.py\<close> works on the values that \<^verbatim>\<open>json.load\<close> produces.
  A finite double is a rational number, so \<open>JFloat\<close> carries a \<open>rat\<close>. The float values
  that the literals \<^verbatim>\<open>NaN\<close>, \<^verbatim>\<open>Infinity\<close> and \<^verbatim>\<open>-Infinity\<close> denote have constructors of
  their own. NaN is not equal to itself, and Python's containers compare their elements by
  identity before they compare them by value, so a NaN carries the identity of its object:
  \<open>JNaN 0\<close> is the one object that the JSON decoder returns for every \<^verbatim>\<open>NaN\<close> literal,
  and \<open>JNaN n\<close> for another \<open>n\<close> is a NaN made elsewhere, by \<^verbatim>\<open>float('nan')\<close> for
  example. A string is the list of its code points, each below 256; in that range the
  decimal digits are \<^verbatim>\<open>0\<close> to \<^verbatim>\<open>9\<close>. A dictionary is an association list in insertion
  order, with distinct keys; a lookup reads the first binding of a key.
\<close>

datatype json =
    JNull
  | JBool bool
  | JInt int
  | JFloat rat
  | JNaN nat
  | JInfinity
  | JNegInfinity
  | JStr string
  | JArr "json list"
  | JObj "(string \<times> json) list"

text \<open>
  The messages of the \<^verbatim>\<open>ValueError\<close>s that can arise. The first six are raised by the
  two converters (the Python text also prints the entry); the last four come from
  \<^verbatim>\<open>datetime.strptime\<close> and \<^verbatim>\<open>datetime.timestamp\<close>.
\<close>

datatype msg =
    MissingTimestamp
  | MissingSensorID
  | MissingSensorValue
  | MissingDeviceId
  | MissingReading
  | MissingTime
  | DoesNotMatchFormat
  | UnconvertedDataRemains
  | FieldOutOfRange
  | YearOutOfRange

datatype exn =
    ValueError msg
  | KeyError
  | TypeError
  | AttributeError
  | FileNotFoundError
  | IsADirectoryError
  | PermissionError
  | JSONDecodeError
  | SystemExit int
  | KeyboardInterrupt
  | CustomError "exn option"

text \<open>
  \<^verbatim>\<open>except Exception\<close> catches every exception class except those that derive from
  \<^verbatim>\<open>BaseException\<close> only.
\<close>

fun is_Exception :: "exn \<Rightarrow> bool" where
  "is_Exception (SystemExit n) = False"
| "is_Exception KeyboardInterrupt = False"
| "is_Exception e = True"

text \<open>
  \<^verbatim>\<open>str(e)\<close>, which the handlers evaluate to format their log lines. The exceptions of
  the library and of the interpreter have a \<^verbatim>\<open>__str__\<close> that returns.
  \<open>CustomError r\<close> is an instance of a class that a caller derives from
  \<^verbatim>\<open>Exception\<close>: its \<^verbatim>\<open>__str__\<close> returns when \<open>r\<close> is \<open>None\<close> and raises \<open>e\<close> when
  \<open>r\<close> is \<open>Some e\<close>. \<open>str_raises e\<close> is the exception that \<^verbatim>\<open>str(e)\<close> raises, if any.
\<close>

fun str_raises :: "exn \<Rightarrow> exn option" where
  "str_raises (CustomError r) = r"
| "str_raises e = None"

text \<open>Python truthiness, as tested by \<^verbatim>\<open>if not x\<close>.\<close>

fun truthy :: "json \<Rightarrow> bool" where
  "truthy JNull = False"
| "truthy (JBool b) = b"
| "truthy (JInt n) = (n \<noteq> 0)"
| "truthy (JFloat r) = (r \<noteq> 0)"
| "truthy (JNaN i) = True"
| "truthy JInfinity = True"
| "truthy JNegInfinity = True"
| "truthy (JStr s) = (s \<noteq> [])"
| "truthy (JArr xs) = (xs \<noteq> [])"
| "truthy (JObj kvs) = (kvs \<noteq> [])"

text \<open>
  \<^verbatim>\<open>entry.get(key)\<close>: the value bound to the key, \<^verbatim>\<open>None\<close> when the key is absent;
  only a dictionary has the method.
\<close>

fun dict_get :: "json \<Rightarrow> string \<Rightarrow> exn + json" where
  "dict_get (JObj kvs) k = (case map_of kvs k of None \<Rightarrow> Inr JNull | Some v \<Rightarrow> Inr v)"
| "dict_get v k = Inl AttributeError"

subsection \<open>\<^verbatim>\<open>datetime.strptime(s, "%Y-%m-%dT%H:%M:%SZ")\<close>\<close>

text \<open>
  CPython turns the format into the regular expression
  \<^verbatim>\<open>(\d\d\d\d)-(1[0-2]|0[1-9]|[1-9])-(3[0-1]|[1-2]\d|0[1-9]|[1-9]| [1-9])T\<close>
  \<^verbatim>\<open>(2[0-3]|[0-1]\d|\d):([0-5]\d|\d):(6[0-1]|[0-5]\d|\d)Z\<close>, compiled with
  \<^verbatim>\<open>IGNORECASE\<close>, matches it at the start of the string and then requires that no
  text remains. A matcher returns every way to match a prefix, in the order in which the
  backtracking engine tries them, each with the value read and the rest of the string.
\<close>

definition between :: "char \<Rightarrow> char \<Rightarrow> char \<Rightarrow> bool" where
  "between lo hi c \<longleftrightarrow> (of_char lo :: nat) \<le> of_char c \<and> (of_char c :: nat) \<le> of_char hi"

definition digit_val :: "char \<Rightarrow> nat" where
  "digit_val c = of_char c - 48"

fun two :: "(char \<Rightarrow> bool) \<Rightarrow> (char \<Rightarrow> bool) \<Rightarrow> string \<Rightarrow> (nat \<times> string) list" where
  "two p q (a # b # rest) = (if p a \<and> q b then [(10 * digit_val a + digit_val b, rest)] else [])"
| "two p q s = []"

fun one :: "(char \<Rightarrow> bool) \<Rightarrow> string \<Rightarrow> (nat \<times> string) list" where
  "one p (a # rest) = (if p a then [(digit_val a, rest)] else [])"
| "one p [] = []"

fun lit :: "char \<Rightarrow> char \<Rightarrow> string \<Rightarrow> string list" where
  "lit u l (a # rest) = (if a = u \<or> a = l then [rest] else [])"
| "lit u l [] = []"

fun rx_Y :: "string \<Rightarrow> (nat \<times> string) list" where
  "rx_Y (a # b # c # d # rest) =
     (if between CHR ''0'' CHR ''9'' a \<and> between CHR ''0'' CHR ''9'' b
         \<and> between CHR ''0'' CHR ''9'' c \<and> between CHR ''0'' CHR ''9'' d
      then [(1000 * digit_val a + 100 * digit_val b + 10 * digit_val c + digit_val d, rest)]
      else [])"
| "rx_Y s = []"

definition rx_m :: "string \<Rightarrow> (nat \<times> string) list" where
  "rx_m s = two (between CHR ''1'' CHR ''1'') (between CHR ''0'' CHR ''2'') s
          @ two (between CHR ''0'' CHR ''0'') (between CHR ''1'' CHR ''9'') s
          @ one (between CHR ''1'' CHR ''9'') s"

definition rx_d :: "string \<Rightarrow> (nat \<times> string) list" where
  "rx_d s = two (between CHR ''3'' CHR ''3'') (between CHR ''0'' CHR ''1'') s
          @ two (between CHR ''1'' CHR ''2'') (between CHR ''0'' CHR ''9'') s
          @ two (between CHR ''0'' CHR ''0'') (between CHR ''1'' CHR ''9'') s
          @ one (between CHR ''1'' CHR ''9'') s
          @ (case s of a # b # rest \<Rightarrow>
               (if a = CHR '' '' \<and> between CHR ''1'' CHR ''9'' b then [(digit_val b, rest)] else [])
             | _ \<Rightarrow> [])"

definition rx_H :: "string \<Rightarrow> (nat \<times> string) list" where
  "rx_H s = two (between CHR ''2'' CHR ''2'') (between CHR ''0'' CHR ''3'') s
          @ two (between CHR ''0'' CHR ''1'') (between CHR ''0'' CHR ''9'') s
          @ one (between CHR ''0'' CHR ''9'') s"

definition rx_M :: "string \<Rightarrow> (nat \<times> string) list" where
  "rx_M s = two (between CHR ''0'' CHR ''5'') (between CHR ''0'' CHR ''9'') s
          @ one (between CHR ''0'' CHR ''9'') s"

definition rx_S :: "string \<Rightarrow> (nat \<times> string) list" where
  "rx_S s = two (between CHR ''6'' CHR ''6'') (between CHR ''0'' CHR ''1'') s
          @ two (between CHR ''0'' CHR ''5'') (between CHR ''0'' CHR ''9'') s
          @ one (between CHR ''0'' CHR ''9'') s"

record datetime =
  year :: nat
  month :: nat
  day :: nat
  hour :: nat
  minute :: nat
  second :: nat

definition strptime_match :: "string \<Rightarrow> (datetime \<times> string) list" where
  "strptime_match s =
     [(\<lparr>year = y, month = m, day = d, hour = H, minute = M, second = S\<rparr>, r12).
        (y, r1) \<leftarrow> rx_Y s, r2 \<leftarrow> lit CHR ''-'' CHR ''-'' r1,
        (m, r3) \<leftarrow> rx_m r2, r4 \<leftarrow> lit CHR ''-'' CHR ''-'' r3,
        (d, r5) \<leftarrow> rx_d r4, r6 \<leftarrow> lit CHR ''T'' CHR ''t'' r5,
        (H, r7) \<leftarrow> rx_H r6, r8 \<leftarrow> lit CHR '':'' CHR '':'' r7,
        (M, r9) \<leftarrow> rx_M r8, r10 \<leftarrow> lit CHR '':'' CHR '':'' r9,
        (S, r11) \<leftarrow> rx_S r10, r12 \<leftarrow> lit CHR ''Z'' CHR ''z'' r11]"

text \<open>The calendar checks of the \<^verbatim>\<open>date\<close> and \<^verbatim>\<open>datetime\<close> constructors.\<close>

definition is_leap :: "nat \<Rightarrow> bool" where
  "is_leap y \<longleftrightarrow> y mod 4 = 0 \<and> (y mod 100 \<noteq> 0 \<or> y mod 400 = 0)"

definition days_in_month :: "nat \<Rightarrow> nat \<Rightarrow> nat" where
  "days_in_month y m =
     (if m = 2 then (if is_leap y then 29 else 28)
      else if m = 4 \<or> m = 6 \<or> m = 9 \<or> m = 11 then 30 else 31)"

definition valid_datetime :: "datetime \<Rightarrow> bool" where
  "valid_datetime dt \<longleftrightarrow>
     1 \<le> year dt \<and> year dt \<le> 9999 \<and> 1 \<le> month dt \<and> month dt \<le> 12
     \<and> 1 \<le> day dt \<and> day dt \<le> days_in_month (year dt) (month dt)
     \<and> hour dt \<le> 23 \<and> minute dt \<le> 59 \<and> second dt \<le> 59"

definition strptime :: "json \<Rightarrow> exn + datetime" where
  "strptime v =
     (case v of
        JStr s \<Rightarrow>
          (case strptime_match s of
             [] \<Rightarrow> Inl (ValueError DoesNotMatchFormat)
           | (dt, rest) # others \<Rightarrow>
               if rest \<noteq> [] then Inl (ValueError UnconvertedDataRemains)
               else if valid_datetime dt then Inr dt
               else Inl (ValueError FieldOutOfRange))
      | _ \<Rightarrow> Inl TypeError)"

subsection \<open>\<^verbatim>\<open>datetime.timestamp()\<close> of a naive datetime\<close>

text \<open>
  \<^verbatim>\<open>strptime\<close> returns a naive datetime: the trailing \<^verbatim>\<open>Z\<close> is matched as a literal and
  carries no zone. \<^verbatim>\<open>timestamp()\<close> then reads the fields as local time. The local zone is
  part of the process environment; here it is a fixed offset \<open>tz\<close>, in seconds east of
  UTC (\<open>0\<close> for a process running in UTC), on a platform with a 64-bit \<^verbatim>\<open>time_t\<close>.

  CPython computes \<open>t\<close>, the seconds from ordinal day 0 to the fields read as UTC, and
  solves \<open>local u = t\<close>, calling \<open>local\<close> at \<open>t\<close>, at the candidate \<open>u1\<close> and at
  \<open>u1 - 24 * 3600\<close>; each call raises \<^verbatim>\<open>ValueError\<close> when the local year leaves
  \<open>1..9999\<close>.
\<close>

definition days_before_year :: "nat \<Rightarrow> int" where
  "days_before_year y =
     (int y - 1) * 365 + (int y - 1) div 4 - (int y - 1) div 100 + (int y - 1) div 400"

definition days_before_month :: "nat \<Rightarrow> nat \<Rightarrow> int" where
  "days_before_month y m = int (sum_list (map (days_in_month y) [1..<m]))"

definition ymd_to_ord :: "nat \<Rightarrow> nat \<Rightarrow> nat \<Rightarrow> int" where
  "ymd_to_ord y m d = days_before_year y + days_before_month y m + int d"

definition utc_to_seconds :: "datetime \<Rightarrow> int" where
  "utc_to_seconds dt =
     ((ymd_to_ord (year dt) (month dt) (day dt) * 24 + int (hour dt)) * 60
        + int (minute dt)) * 60 + int (second dt)"

definition epoch_seconds :: int where
  "epoch_seconds = 719163 * 24 * 60 * 60"

definition min_seconds :: int where
  "min_seconds = 1 * 24 * 60 * 60"

definition max_seconds :: int where
  "max_seconds = 3652059 * 24 * 60 * 60 + 86399"

definition local_seconds :: "int \<Rightarrow> int \<Rightarrow> exn + int" where
  "local_seconds tz u =
     (if min_seconds \<le> u + tz \<and> u + tz \<le> max_seconds then Inr (u + tz)
      else Inl (ValueError YearOutOfRange))"

definition timestamp :: "int \<Rightarrow> datetime \<Rightarrow> exn + int" where
  "timestamp tz dt =
     (let t = utc_to_seconds dt in
      case local_seconds tz t of
        Inl e \<Rightarrow> Inl e
      | Inr lt \<Rightarrow>
          (let a = lt - t; u1 = t - a in
           case local_seconds tz u1 of
             Inl e \<Rightarrow> Inl e
           | Inr t1 \<Rightarrow>
               (case local_seconds tz (u1 - 24 * 3600) of
                  Inl e \<Rightarrow> Inl e
                | Inr lt2 \<Rightarrow> Inr (u1 - epoch_seconds))))"

section \<open>The converters\<close>

text \<open>
  \<^verbatim>\<open>convert_data1_entry\<close>. The handler \<^verbatim>\<open>except (ValueError, KeyError)\<close> logs and
  re-raises, so every exception leaves the function unchanged. The seconds are a whole
  number below \<open>2^53\<close> in absolute value, so \<^verbatim>\<open>int(dt.timestamp() * 1000)\<close> is exact.
\<close>

definition convert_data1_entry :: "int \<Rightarrow> json \<Rightarrow> exn + json" where
  "convert_data1_entry tz entry =
     (case dict_get entry ''timestamp'' of
        Inl e \<Rightarrow> Inl e
      | Inr iso_time \<Rightarrow>
          if \<not> truthy iso_time then Inl (ValueError MissingTimestamp)
          else
            (case strptime iso_time of
               Inl e \<Rightarrow> Inl e
             | Inr dt \<Rightarrow>
                 (case timestamp tz dt of
                    Inl e \<Rightarrow> Inl e
                  | Inr secs \<Rightarrow>
                      (let ms = secs * 1000 in
                       case dict_get entry ''id'' of
                         Inl e \<Rightarrow> Inl e
                       | Inr sensor_id \<Rightarrow>
                           if \<not> truthy sensor_id then Inl (ValueError MissingSensorID)
                           else
                             (case dict_get entry ''value'' of
                                Inl e \<Rightarrow> Inl e
                              | Inr sensor_value \<Rightarrow>
                                  if sensor_value = JNull then Inl (ValueError MissingSensorValue)
                                  else Inr (JObj [(''sensor'', sensor_id),
                                                  (''value'', sensor_value),
                                                  (''timestamp'', JInt ms)]))))))"

definition convert_data2_entry :: "json \<Rightarrow> exn + json" where
  "convert_data2_entry entry =
     (case dict_get entry ''deviceId'' of
        Inl e \<Rightarrow> Inl e
      | Inr device_id \<Rightarrow>
          if \<not> truthy device_id then Inl (ValueError MissingDeviceId)
          else
            (case dict_get entry ''reading'' of
               Inl e \<Rightarrow> Inl e
             | Inr reading \<Rightarrow>
                 if reading = JNull then Inl (ValueError MissingReading)
                 else
                   (case dict_get entry ''time'' of
                      Inl e \<Rightarrow> Inl e
                    | Inr time \<Rightarrow>
                        if time = JNull then Inl (ValueError MissingTime)
                        else Inr (JObj [(''sensor'', device_id),
                                        (''value'', reading),
                                        (''timestamp'', time)]))))"

text \<open>
  \<^verbatim>\<open>convert_dataset\<close>. \<^verbatim>\<open>enumerate(data)\<close> iterates a list over its elements, a
  dictionary over its keys and a string over its characters; other values are not
  iterable. In the loop \<^verbatim>\<open>except Exception\<close> catches an exception of that class,
  formats a warning with \<^verbatim>\<open>str(e)\<close> and goes on to the next entry; an exception outside
  that class, or one that \<^verbatim>\<open>str(e)\<close> raises inside the handler, leaves the function.
\<close>

fun py_iter :: "json \<Rightarrow> exn + json list" where
  "py_iter (JArr xs) = Inr xs"
| "py_iter (JObj kvs) = Inr (map (\<lambda>kv. JStr (fst kv)) kvs)"
| "py_iter (JStr s) = Inr (map (\<lambda>c. JStr [c]) s)"
| "py_iter v = Inl TypeError"

fun convert_loop :: "(json \<Rightarrow> exn + json) \<Rightarrow> json list \<Rightarrow> json list \<Rightarrow> exn + json list" where
  "convert_loop converter_func [] result = Inr result"
| "convert_loop converter_func (entry # rest) result =
     (case converter_func entry of
        Inr converted \<Rightarrow> convert_loop converter_func rest (result @ [converted])
      | Inl e \<Rightarrow>
          if is_Exception e
          then (case str_raises e of
                  None \<Rightarrow> convert_loop converter_func rest result
                | Some e' \<Rightarrow> Inl e')
          else Inl e)"

definition convert_dataset :: "json \<Rightarrow> (json \<Rightarrow> exn + json) \<Rightarrow> exn + json list" where
  "convert_dataset data converter_func =
     (case py_iter data of
        Inl e \<Rightarrow> Inl e
      | Inr entries \<Rightarrow> convert_loop converter_func entries [])"

section \<open>Sorting by timestamp\<close>

text \<open>
  Python's \<^verbatim>\<open><\<close> and \<^verbatim>\<open>==\<close> on the values above. Booleans, integers and floats
  compare by numeric value, with the two infinities at the ends, and every comparison
  with a NaN is false. Strings compare by code point and lists lexicographically; every
  other ordering comparison raises \<^verbatim>\<open>TypeError\<close>. Inside a list or a dictionary two
  elements count as equal when they are the same object or \<^verbatim>\<open>==\<close> holds; identity
  matters for NaN only.
\<close>

datatype number = NegInf | Finite rat | PosInf

fun num_val :: "json \<Rightarrow> number option" where
  "num_val (JBool b) = Some (Finite (if b then 1 else 0))"
| "num_val (JInt n) = Some (Finite (of_int n))"
| "num_val (JFloat r) = Some (Finite r)"
| "num_val JInfinity = Some PosInf"
| "num_val JNegInfinity = Some NegInf"
| "num_val v = None"

fun is_nan :: "json \<Rightarrow> bool" where
  "is_nan (JNaN i) = True"
| "is_nan v = False"

definition is_number :: "json \<Rightarrow> bool" where
  "is_number v \<longleftrightarrow> is_nan v \<or> num_val v \<noteq> None"

fun number_lt :: "number \<Rightarrow> number \<Rightarrow> bool" where
  "number_lt (Finite x) (Finite y) = (x < y)"
| "number_lt NegInf y = (y \<noteq> NegInf)"
| "number_lt x PosInf = (x \<noteq> PosInf)"
| "number_lt x y = False"

fun str_lt :: "string \<Rightarrow> string \<Rightarrow> bool" where
  "str_lt [] ys = (ys \<noteq> [])"
| "str_lt (x # xs) [] = False"
| "str_lt (x # xs) (y # ys) = (if x = y then str_lt xs ys else (of_char x :: nat) < of_char y)"

fun py_eq :: "json \<Rightarrow> json \<Rightarrow> bool" where
  "py_eq (JArr xs) (JArr ys) = list_all2 (\<lambda>x y. is_nan x \<and> x = y \<or> py_eq x y) xs ys"
| "py_eq (JObj a) (JObj b) =
     (length a = length b \<and>
      (\<forall>kv \<in> set a. case map_of b (fst kv) of
                        None \<Rightarrow> False
                      | Some w \<Rightarrow> is_nan (snd kv) \<and> snd kv = w \<or> py_eq (snd kv) w))"
| "py_eq (JStr s) (JStr t) = (s = t)"
| "py_eq JNull JNull = True"
| "py_eq v w = (case (num_val v, num_val w) of (Some x, Some y) \<Rightarrow> x = y | _ \<Rightarrow> False)"

definition py_same :: "json \<Rightarrow> json \<Rightarrow> bool" where
  "py_same x y \<longleftrightarrow> is_nan x \<and> x = y \<or> py_eq x y"

fun py_lt :: "json \<Rightarrow> json \<Rightarrow> exn + bool"
  and py_lt_list :: "json list \<Rightarrow> json list \<Rightarrow> exn + bool" where
  "py_lt (JArr xs) (JArr ys) = py_lt_list xs ys"
| "py_lt (JStr s) (JStr t) = Inr (str_lt s t)"
| "py_lt v w =
     (case (num_val v, num_val w) of
        (Some x, Some y) \<Rightarrow> Inr (number_lt x y)
      | _ \<Rightarrow> if is_number v \<and> is_number w then Inr False else Inl TypeError)"
| "py_lt_list [] ys = Inr (ys \<noteq> [])"
| "py_lt_list (x # xs) [] = Inr False"
| "py_lt_list (x # xs) (y # ys) = (if py_same x y then py_lt_list xs ys else py_lt x y)"

text \<open>\<^verbatim>\<open>x['timestamp']\<close>, the key function of the sort.\<close>

fun subscript :: "json \<Rightarrow> string \<Rightarrow> exn + json" where
  "subscript (JObj kvs) k = (case map_of kvs k of None \<Rightarrow> Inl KeyError | Some v \<Rightarrow> Inr v)"
| "subscript v k = Inl TypeError"

fun sort_keys :: "json list \<Rightarrow> exn + (json \<times> json) list" where
  "sort_keys [] = Inr []"
| "sort_keys (x # xs) =
     (case subscript x ''timestamp'' of
        Inl e \<Rightarrow> Inl e
      | Inr k \<Rightarrow> (case sort_keys xs of Inl e \<Rightarrow> Inl e | Inr kxs \<Rightarrow> Inr ((k, x) # kxs)))"

text \<open>
  \<^verbatim>\<open>list.sort\<close> computes every key first and then sorts with \<^verbatim>\<open><\<close> on the keys alone,
  stably. On keys that \<^verbatim>\<open><\<close> orders totally every stable sort returns the same list,
  so the sort is written as an insertion sort that moves an element behind another only
  when that other key is strictly smaller. On keys that \<^verbatim>\<open><\<close> does not order totally (a
  NaN among them, or values that cannot be compared) the list that CPython's merge sort
  returns depends on the comparisons it happens to make; there the model agrees with it
  on the exception class. On the keys 2, NaN, 1 in this order both compare only with the
  NaN, find every comparison false and leave the list as it is.
\<close>

fun insort_lt :: "json \<times> json \<Rightarrow> (json \<times> json) list \<Rightarrow> exn + (json \<times> json) list" where
  "insort_lt x [] = Inr [x]"
| "insort_lt x (y # ys) =
     (case py_lt (fst y) (fst x) of
        Inl e \<Rightarrow> Inl e
      | Inr True \<Rightarrow> (case insort_lt x ys of Inl e \<Rightarrow> Inl e | Inr zs \<Rightarrow> Inr (y # zs))
      | Inr False \<Rightarrow> Inr (x # y # ys))"

fun sort_pairs :: "(json \<times> json) list \<Rightarrow> exn + (json \<times> json) list" where
  "sort_pairs [] = Inr []"
| "sort_pairs (x # xs) = (case sort_pairs xs of Inl e \<Rightarrow> Inl e | Inr ys \<Rightarrow> insort_lt x ys)"

definition sort_by_timestamp :: "json list \<Rightarrow> exn + json list" where
  "sort_by_timestamp result =
     (case sort_keys result of
        Inl e \<Rightarrow> Inl e
      | Inr kxs \<Rightarrow> (case sort_pairs kxs of Inl e \<Rightarrow> Inl e | Inr kys \<Rightarrow> Inr (map snd kys)))"

section \<open>Files and the main function\<close>

subsection \<open>The JSON codec\<close>

text \<open>
  \<^verbatim>\<open>json.dump\<close> and \<^verbatim>\<open>json.load\<close>, after the conversion tables of the library's
  documentation. The text of a file is not modelled character by character: a JSON text
  is given by the document it spells, so that indentation, escapes and the digits of a
  number are left out. \<^verbatim>\<open>json.dump\<close> writes a dictionary as an object, a list as an
  array, a string as a string, an integer as an integer number, a float as a real number
  or as one of \<^verbatim>\<open>NaN\<close>, \<^verbatim>\<open>Infinity\<close>, \<^verbatim>\<open>-Infinity\<close>, and \<^verbatim>\<open>True\<close>, \<^verbatim>\<open>False\<close>,
  \<^verbatim>\<open>None\<close> as \<^verbatim>\<open>true\<close>, \<^verbatim>\<open>false\<close>, \<^verbatim>\<open>null\<close>. \<^verbatim>\<open>json.load\<close> reads them back; every
  \<^verbatim>\<open>NaN\<close> becomes the decoder's one NaN object, and of two members of an object with the
  same name the later value is kept, at the place of the first.
\<close>

datatype doc =
    DNull
  | DTrue
  | DFalse
  | DInt int
  | DReal rat
  | DNaN
  | DInfinity
  | DNegInfinity
  | DString string
  | DArray "doc list"
  | DObject "(string \<times> doc) list"

fun encode :: "json \<Rightarrow> doc" where
  "encode JNull = DNull"
| "encode (JBool b) = (if b then DTrue else DFalse)"
| "encode (JInt n) = DInt n"
| "encode (JFloat r) = DReal r"
| "encode (JNaN i) = DNaN"
| "encode JInfinity = DInfinity"
| "encode JNegInfinity = DNegInfinity"
| "encode (JStr s) = DString s"
| "encode (JArr xs) = DArray (map encode xs)"
| "encode (JObj kvs) = DObject (map (\<lambda>kv. (fst kv, encode (snd kv))) kvs)"

fun dict_set :: "(string \<times> json) list \<Rightarrow> string \<Rightarrow> json \<Rightarrow> (string \<times> json) list" where
  "dict_set [] k v = [(k, v)]"
| "dict_set ((k', v') # kvs) k v =
     (if k' = k then (k, v) # kvs else (k', v') # dict_set kvs k v)"

definition dict_of_pairs :: "(string \<times> json) list \<Rightarrow> (string \<times> json) list" where
  "dict_of_pairs ps = foldl (\<lambda>d kv. dict_set d (fst kv) (snd kv)) [] ps"

fun decode :: "doc \<Rightarrow> json" where
  "decode DNull = JNull"
| "decode DTrue = JBool True"
| "decode DFalse = JBool False"
| "decode (DInt n) = JInt n"
| "decode (DReal r) = JFloat r"
| "decode DNaN = JNaN 0"
| "decode DInfinity = JInfinity"
| "decode DNegInfinity = JNegInfinity"
| "decode (DString s) = JStr s"
| "decode (DArray ds) = JArr (map decode ds)"
| "decode (DObject ms) = JObj (dict_of_pairs (map (\<lambda>m. (fst m, decode (snd m))) ms))"

subsection \<open>Files\<close>

text \<open>
  The file system maps a path to a regular file (its contents, whether it may be read,
  whether it may be written) or to a directory. The contents are a JSON document or text
  that is not JSON. \<open>dir_writable\<close> says whether a new file may be created in the working
  directory. Every access is recorded in \<open>trace\<close>. The offset of the local time zone is
  the one parameter of the environment.
\<close>

datatype contents = NotJson | Document doc

datatype node = RegularFile contents bool bool | Directory

datatype io_event = Exists string | OpenRead string | OpenWrite string

record world =
  files :: "string \<Rightarrow> node option"
  dir_writable :: bool
  trace :: "io_event list"

record env =
  utc_offset :: int

definition os_path_exists :: "world \<Rightarrow> string \<Rightarrow> world \<times> bool" where
  "os_path_exists w p = (w\<lparr>trace := trace w @ [Exists p]\<rparr>, files w p \<noteq> None)"

definition load_json_file :: "env \<Rightarrow> world \<Rightarrow> string \<Rightarrow> world \<times> (exn + json)" where
  "load_json_file ev w filename =
     (let w' = w\<lparr>trace := trace w @ [OpenRead filename]\<rparr> in
      case files w filename of
        None \<Rightarrow> (w', Inl FileNotFoundError)
      | Some Directory \<Rightarrow> (w', Inl IsADirectoryError)
      | Some (RegularFile text r wr) \<Rightarrow>
          if \<not> r then (w', Inl PermissionError)
          else (case text of
                  NotJson \<Rightarrow> (w', Inl JSONDecodeError)
                | Document d \<Rightarrow> (w', Inr (decode d))))"

definition save_json_file :: "env \<Rightarrow> world \<Rightarrow> string \<Rightarrow> json \<Rightarrow> world \<times> (exn + unit)" where
  "save_json_file ev w filename data =
     (let w' = w\<lparr>trace := trace w @ [OpenWrite filename]\<rparr> in
      case files w filename of
        None \<Rightarrow>
          if dir_writable w
          then (w'\<lparr>files := (files w)(filename \<mapsto> RegularFile (Document (encode data)) True True)\<rparr>,
                Inr ())
          else (w', Inl PermissionError)
      | Some Directory \<Rightarrow> (w', Inl IsADirectoryError)
      | Some (RegularFile text r wr) \<Rightarrow>
          if wr
          then (w'\<lparr>files := (files w)(filename \<mapsto> RegularFile (Document (encode data)) r wr)\<rparr>,
                Inr ())
          else (w', Inl PermissionError))"

text \<open>\<^verbatim>\<open>len(data)\<close>, evaluated for the two log lines after loading.\<close>

fun py_len :: "json \<Rightarrow> exn + nat" where
  "py_len (JArr xs) = Inr (length xs)"
| "py_len (JObj kvs) = Inr (length kvs)"
| "py_len (JStr s) = Inr (length s)"
| "py_len v = Inl TypeError"

text \<open>
  The part of \<^verbatim>\<open>main\<close> between loading and saving: the two lengths, the two
  conversions, the concatenation and the sort.
\<close>

definition combine :: "int \<Rightarrow> json \<Rightarrow> json \<Rightarrow> exn + json list" where
  "combine tz data1 data2 =
     (case py_len data1 of
        Inl e \<Rightarrow> Inl e
      | Inr n1 \<Rightarrow>
          (case py_len data2 of
             Inl e \<Rightarrow> Inl e
           | Inr n2 \<Rightarrow>
               (case convert_dataset data1 (convert_data1_entry tz) of
                  Inl e \<Rightarrow> Inl e
                | Inr converted_data1 \<Rightarrow>
                    (case convert_dataset data2 convert_data2_entry of
                       Inl e \<Rightarrow> Inl e
                     | Inr converted_data2 \<Rightarrow>
                         sort_by_timestamp (converted_data1 @ converted_data2)))))"

definition data1_path :: string where "data1_path = ''data-1.json''"
definition data2_path :: string where "data2_path = ''data-2.json''"
definition output_path :: string where "output_path = ''output.json''"

text \<open>The body of the \<^verbatim>\<open>try\<close> block; \<^verbatim>\<open>sys.exit(1)\<close> raises \<^verbatim>\<open>SystemExit(1)\<close>.\<close>

definition main_try :: "env \<Rightarrow> world \<Rightarrow> world \<times> (exn + unit)" where
  "main_try ev w0 =
     (case os_path_exists w0 data1_path of (w1, found1) \<Rightarrow>
      if \<not> found1 then (w1, Inl (SystemExit 1))
      else
        (case os_path_exists w1 data2_path of (w2, found2) \<Rightarrow>
         if \<not> found2 then (w2, Inl (SystemExit 1))
         else
           (case load_json_file ev w2 data1_path of
              (w3, Inl e) \<Rightarrow> (w3, Inl e)
            | (w3, Inr data1) \<Rightarrow>
                (case load_json_file ev w3 data2_path of
                   (w4, Inl e) \<Rightarrow> (w4, Inl e)
                 | (w4, Inr data2) \<Rightarrow>
                     (case combine (utc_offset ev) data1 data2 of
                        Inl e \<Rightarrow> (w4, Inl e)
                      | Inr result \<Rightarrow> save_json_file ev w4 output_path (JArr result))))))"

text \<open>
  \<^verbatim>\<open>main\<close>: the handler \<^verbatim>\<open>except Exception\<close> logs \<^verbatim>\<open>str(e)\<close> and turns every
  exception of that class into \<^verbatim>\<open>sys.exit(1)\<close>; \<^verbatim>\<open>SystemExit\<close> itself is not of that
  class and passes through. The interpreter ends with status 0 after a normal return,
  with the code of a \<^verbatim>\<open>SystemExit\<close>, and with status 1 after any other uncaught
  exception.
\<close>

definition main :: "env \<Rightarrow> world \<Rightarrow> world \<times> (exn + unit)" where
  "main ev w0 =
     (case main_try ev w0 of
        (w, Inl e) \<Rightarrow>
          if is_Exception e
          then (case str_raises e of
                  None \<Rightarrow> (w, Inl (SystemExit 1))
                | Some e' \<Rightarrow> (w, Inl e'))
          else (w, Inl e)
      | (w, Inr u) \<Rightarrow> (w, Inr u))"

fun exit_status :: "exn + unit \<Rightarrow> int" where
  "exit_status (Inr u) = 0"
| "exit_status (Inl (SystemExit n)) = n"
| "exit_status (Inl e) = 1"

section \<open>Notions used to state the properties\<close>

text \<open>The value of a field of a dictionary as \<^verbatim>\<open>.get\<close> reads it: \<open>JNull\<close> when absent.\<close>

definition field :: "(string \<times> json) list \<Rightarrow> string \<Rightarrow> json" where
  "field kvs k = (case map_of kvs k of None \<Rightarrow> JNull | Some v \<Rightarrow> v)"

text \<open>
  The timestamp normaliser embedded in \<^verbatim>\<open>convert_data1_entry\<close>: \<^verbatim>\<open>strptime\<close>,
  \<^verbatim>\<open>timestamp()\<close>, and the scaling to milliseconds.
\<close>

definition parse_iso_to_epoch_ms :: "int \<Rightarrow> json \<Rightarrow> exn + int" where
  "parse_iso_to_epoch_ms tz v =
     (case strptime v of
        Inl e \<Rightarrow> Inl e
      | Inr dt \<Rightarrow> (case timestamp tz dt of Inl e \<Rightarrow> Inl e | Inr secs \<Rightarrow> Inr (secs * 1000)))"

definition is_zero :: "json \<Rightarrow> bool" where
  "is_zero v \<longleftrightarrow> v = JInt 0 \<or> v = JFloat 0"



text \<open>Concatenation of two results, the first exception winning as in Python.\<close>

definition append_results :: "exn + json list \<Rightarrow> exn + json list \<Rightarrow> exn + json list" where
  "append_results r1 r2 =
     (case r1 of
        Inl e \<Rightarrow> Inl e
      | Inr xs \<Rightarrow> (case r2 of Inl e \<Rightarrow> Inl e | Inr ys \<Rightarrow> Inr (xs @ ys)))"


text \<open>
  A converter that fails on \<^verbatim>\<open>null\<close> with an exception of a class derived from
  \<^verbatim>\<open>Exception\<close> whose \<^verbatim>\<open>__str__\<close> raises \<^verbatim>\<open>TypeError\<close>.
\<close>

definition str_fails_on_null :: "json \<Rightarrow> exn + json" where
  "str_fails_on_null entry =
     (if entry = JNull then Inl (CustomError (Some TypeError)) else Inr entry)"

text \<open>A unified entry: exactly the keys sensor, value, timestamp, none of them null.\<close>

fun unified_entry :: "json \<Rightarrow> bool" where
  "unified_entry (JObj [(k1, s), (k2, v), (k3, t)]) =
     (k1 = ''sensor'' \<and> k2 = ''value'' \<and> k3 = ''timestamp''
      \<and> s \<noteq> JNull \<and> v \<noteq> JNull \<and> t \<noteq> JNull)"
| "unified_entry e = False"

text \<open>
  The sort key of an entry, and the two relations on entries that the sort is about:
  \<open>ts_le x y\<close> when the key of \<open>y\<close> is not smaller than that of \<open>x\<close>, and \<open>ts_eq x y\<close>
  when the two keys are equal, both as Python compares them. \<open>numeric_ts\<close> holds of an
  entry whose key is a number other than NaN, \<open>string_ts\<close> of one whose key is a string,
  and \<open>number_ts\<close> of one whose key is a number, NaN included.
\<close>

definition ts_key :: "json \<Rightarrow> json" where
  "ts_key e = (case subscript e ''timestamp'' of Inl err \<Rightarrow> JNull | Inr k \<Rightarrow> k)"

definition ts_le :: "json \<Rightarrow> json \<Rightarrow> bool" where
  "ts_le x y =
     (case (subscript x ''timestamp'', subscript y ''timestamp'') of
        (Inr kx, Inr ky) \<Rightarrow> py_lt ky kx = Inr False
      | _ \<Rightarrow> False)"

definition ts_eq :: "json \<Rightarrow> json \<Rightarrow> bool" where
  "ts_eq x y =
     (case (subscript x ''timestamp'', subscript y ''timestamp'') of
        (Inr kx, Inr ky) \<Rightarrow> py_eq kx ky
      | _ \<Rightarrow> False)"

definition numeric_ts :: "json \<Rightarrow> bool" where
  "numeric_ts e =
     (case subscript e ''timestamp'' of Inl err \<Rightarrow> False | Inr k \<Rightarrow> num_val k \<noteq> None)"

definition string_ts :: "json \<Rightarrow> bool" where
  "string_ts e =
     (case subscript e ''timestamp'' of Inl err \<Rightarrow> False
      | Inr k \<Rightarrow> (case k of JStr s \<Rightarrow> True | _ \<Rightarrow> False))"

definition number_ts :: "json \<Rightarrow> bool" where
  "number_ts e =
     (case subscript e ''timestamp'' of Inl err \<Rightarrow> False | Inr k \<Rightarrow> is_number k)"

text \<open>
  The place of a numeric key in the order of the numbers, and the text of a string key;
  both total, for use in proofs.
\<close>

definition rank :: "number \<Rightarrow> int \<times> rat" where
  "rank n = (case n of NegInf \<Rightarrow> (- 1, 0) | Finite r \<Rightarrow> (0, r) | PosInf \<Rightarrow> (1, 0))"

definition ts_rank :: "json \<Rightarrow> int \<times> rat" where
  "ts_rank e =
     (case num_val (ts_key e) of
        None \<Rightarrow> (0, 0)
      | Some NegInf \<Rightarrow> (- 1, 0)
      | Some (Finite r) \<Rightarrow> (0, r)
      | Some PosInf \<Rightarrow> (1, 0))"

definition ts_str :: "json \<Rightarrow> string" where
  "ts_str e = (case ts_key e of JStr s \<Rightarrow> s | _ \<Rightarrow> [])"

fun is_open :: "io_event \<Rightarrow> bool" where
  "is_open (Exists p) = False"
| "is_open (OpenRead p) = True"
| "is_open (OpenWrite p) = True"

text \<open>The example of the docstring of \<^verbatim>\<open>convert_data1_entry\<close>.\<close>

definition example1 :: json where
  "example1 = JObj [(''id'', JStr ''sensor-1''), (''value'', JFloat (47 / 2)),
                    (''timestamp'', JStr ''2023-06-01T12:00:00Z'')]"

text \<open>
  A working directory that holds the first input and an earlier output but not the second
  input, and the environment of a process that runs in UTC.
\<close>

definition only_data1 :: world where
  "only_data1 = \<lparr>files = [data1_path \<mapsto> RegularFile (Document (DArray [])) True True,
                            output_path \<mapsto> RegularFile NotJson True True],
                 dir_writable = True, trace = []\<rparr>"

definition utc :: env where
  "utc = \<lparr>utc_offset = 0\<rparr>"

text \<open>A second dataset, one of whose timestamps equals that of the docstring example.\<close>

definition data2_example :: json where
  "data2_example =
     JArr [JObj [(''deviceId'', JStr ''device-2''), (''reading'', JInt 1), (''time'', JInt 1685620800000)],
           JObj [(''deviceId'', JStr ''device-3''), (''reading'', JInt 2), (''time'', JInt 5)]]"

definition converted1_example :: "json list" where
  "converted1_example =
     [JObj [(''sensor'', JStr ''sensor-1''), (''value'', JFloat (47 / 2)),
            (''timestamp'', JInt 1685620800000)]]"

definition converted2_example :: "json list" where
  "converted2_example =
     [JObj [(''sensor'', JStr ''device-2''), (''value'', JInt 1), (''timestamp'', JInt 1685620800000)],
      JObj [(''sensor'', JStr ''device-3''), (''value'', JInt 2), (''timestamp'', JInt 5)]]"

text \<open>
  Datasets whose times are not all comparable numbers: one with a NaN, one of strings, one
  of a number and a string.
\<close>

definition nan_times :: json where
  "nan_times =
     JArr [JObj [(''deviceId'', JStr ''a''), (''reading'', JInt 1), (''time'', JInt 2)],
           JObj [(''deviceId'', JStr ''b''), (''reading'', JInt 1), (''time'', JNaN 0)],
           JObj [(''deviceId'', JStr ''c''), (''reading'', JInt 1), (''time'', JInt 1)]]"

definition string_times :: json where
  "string_times =
     JArr [JObj [(''deviceId'', JStr ''a''), (''reading'', JInt 1), (''time'', JStr ''b'')],
           JObj [(''deviceId'', JStr ''b''), (''reading'', JInt 2), (''time'', JStr ''a'')]]"

definition converted_string_times :: "json list" where
  "converted_string_times =
     [JObj [(''sensor'', JStr ''a''), (''value'', JInt 1), (''timestamp'', JStr ''b'')],
      JObj [(''sensor'', JStr ''b''), (''value'', JInt 2), (''timestamp'', JStr ''a'')]]"

definition mixed_times :: json where
  "mixed_times =
     JArr [JObj [(''deviceId'', JStr ''a''), (''reading'', JInt 1), (''time'', JInt 1)],
           JObj [(''deviceId'', JStr ''b''), (''reading'', JInt 2), (''time'', JStr ''a'')]]"

definition converted_mixed_times :: "json list" where
  "converted_mixed_times =
     [JObj [(''sensor'', JStr ''a''), (''value'', JInt 1), (''timestamp'', JInt 1)],
      JObj [(''sensor'', JStr ''b''), (''value'', JInt 2), (''timestamp'', JStr ''a'')]]"

text \<open>
  The strict pattern \<^verbatim>\<open>YYYY-MM-DDTHH:MM:SSZ\<close>: the text of a datetime with a four-digit
  year and two-digit month, day, hour, minute and second, all padded with zeros.
\<close>

definition digit_char :: "nat \<Rightarrow> char" where
  "digit_char n = char_of (48 + n)"

definition pad2 :: "nat \<Rightarrow> string" where
  "pad2 n = [digit_char (n div 10), digit_char (n mod 10)]"

definition pad4 :: "nat \<Rightarrow> string" where
  "pad4 n = [digit_char (n div 1000), digit_char (n div 100 mod 10),
             digit_char (n div 10 mod 10), digit_char (n mod 10)]"

definition isoformat :: "datetime \<Rightarrow> string" where
  "isoformat dt = pad4 (year dt) @ ''-'' @ pad2 (month dt) @ ''-'' @ pad2 (day dt) @ ''T''
                  @ pad2 (hour dt) @ '':'' @ pad2 (minute dt) @ '':'' @ pad2 (second dt) @ ''Z''"

definition non_digit :: "char \<Rightarrow> bool" where
  "non_digit c \<longleftrightarrow> (of_char c :: nat) < 48 \<or> 57 < (of_char c :: nat)"

section \<open>Auxiliary facts\<close>

lemmas strptime_eval =
  strptime_def strptime_match_def rx_m_def rx_d_def rx_H_def rx_M_def rx_S_def between_def
  digit_val_def valid_datetime_def days_in_month_def is_leap_def

lemmas timestamp_eval =
  timestamp_def local_seconds_def utc_to_seconds_def ymd_to_ord_def days_before_year_def
  days_before_month_def min_seconds_def max_seconds_def epoch_seconds_def upt_rec

lemma dict_get_JObj: "dict_get (JObj kvs) k = Inr (field kvs k)"
  by (simp add: field_def split: option.splits)

lemma convert_data1_entry_JObj:
  "convert_data1_entry tz (JObj kvs) =
     (if \<not> truthy (field kvs ''timestamp'') then Inl (ValueError MissingTimestamp)
      else case parse_iso_to_epoch_ms tz (field kvs ''timestamp'') of
             Inl e \<Rightarrow> Inl e
           | Inr ms \<Rightarrow>
               if \<not> truthy (field kvs ''id'') then Inl (ValueError MissingSensorID)
               else if field kvs ''value'' = JNull then Inl (ValueError MissingSensorValue)
               else Inr (JObj [(''sensor'', field kvs ''id''), (''value'', field kvs ''value''),
                               (''timestamp'', JInt ms)]))"
  by (simp add: convert_data1_entry_def dict_get_JObj parse_iso_to_epoch_ms_def Let_def
      del: dict_get.simps split: sum.splits)

lemma convert_data2_entry_JObj:
  "convert_data2_entry (JObj kvs) =
     (if \<not> truthy (field kvs ''deviceId'') then Inl (ValueError MissingDeviceId)
      else if field kvs ''reading'' = JNull then Inl (ValueError MissingReading)
      else if field kvs ''time'' = JNull then Inl (ValueError MissingTime)
      else Inr (JObj [(''sensor'', field kvs ''deviceId''), (''value'', field kvs ''reading''),
                      (''timestamp'', field kvs ''time'')]))"
  by (simp add: convert_data2_entry_def dict_get_JObj del: dict_get.simps)

lemma strptime_truthy: "strptime v = Inr dt \<Longrightarrow> truthy v"
  by (cases v) (auto simp: strptime_def strptime_match_def split: list.splits if_splits)

lemma strptime_valid: "strptime v = Inr dt \<Longrightarrow> (\<exists>s. v = JStr s) \<and> valid_datetime dt"
  by (cases v) (auto simp: strptime_def split: list.splits if_splits)

lemma strptime_error_kinds:
  "strptime v = Inl e \<Longrightarrow>
     e = TypeError \<or> e = ValueError DoesNotMatchFormat
     \<or> e = ValueError UnconvertedDataRemains \<or> e = ValueError FieldOutOfRange"
  by (cases v) (auto simp: strptime_def split: list.splits if_splits)

lemma timestamp_error_kinds: "timestamp tz dt = Inl e \<Longrightarrow> e = ValueError YearOutOfRange"
  by (auto simp: timestamp_def local_seconds_def Let_def split: if_splits)

lemma parse_iso_error_kinds:
  "parse_iso_to_epoch_ms tz v = Inl e \<Longrightarrow>
     e = TypeError \<or> e = ValueError DoesNotMatchFormat
     \<or> e = ValueError UnconvertedDataRemains \<or> e = ValueError FieldOutOfRange
     \<or> e = ValueError YearOutOfRange"
  by (auto simp: parse_iso_to_epoch_ms_def split: sum.splits
      dest: strptime_error_kinds timestamp_error_kinds)

lemma parse_iso_truthy: "parse_iso_to_epoch_ms tz v = Inr ms \<Longrightarrow> truthy v"
  by (auto simp: parse_iso_to_epoch_ms_def split: sum.splits dest: strptime_truthy)

lemma convert_loop_acc:
  "convert_loop f xs acc
     = (case convert_loop f xs [] of Inl e \<Rightarrow> Inl e | Inr ys \<Rightarrow> Inr (acc @ ys))"
proof (induction xs arbitrary: acc)
  case Nil
  show ?case by simp
next
  case (Cons x xs)
  show ?case
  proof (cases "f x")
    case (Inl e)
    then show ?thesis using Cons.IH [of acc] by (simp split: option.splits)
  next
    case (Inr y)
    then show ?thesis
      using Cons.IH [of "acc @ [y]"] Cons.IH [of "[y]"]
      by (simp split: sum.splits)
  qed
qed

lemma convert_loop_append:
  "convert_loop f (xs @ ys) [] = append_results (convert_loop f xs []) (convert_loop f ys [])"
proof (induction xs)
  case Nil
  show ?case by (simp add: append_results_def split: sum.splits)
next
  case (Cons x xs)
  show ?case
  proof (cases "f x")
    case (Inl e)
    then show ?thesis using Cons.IH by (simp add: append_results_def split: option.splits)
  next
    case (Inr y)
    then show ?thesis
      using Cons.IH convert_loop_acc [of f "xs @ ys" "[y]"] convert_loop_acc [of f xs "[y]"]
      by (simp add: append_results_def split: sum.splits)
  qed
qed



lemma py_len_iter: "py_iter d = Inr xs \<Longrightarrow> \<exists>n. py_len d = Inr n"
  by (cases d) auto

lemma convert_dataset_len: "convert_dataset d f = Inr ys \<Longrightarrow> \<exists>n. py_len d = Inr n"
  by (auto simp: convert_dataset_def split: sum.splits dest: py_len_iter)

lemma convert_loop_from:
  "convert_loop f xs acc = Inr ys \<Longrightarrow> y \<in> set ys \<Longrightarrow> y \<in> set acc \<or> (\<exists>x \<in> set xs. f x = Inr y)"
proof (induction xs arbitrary: acc)
  case Nil
  then show ?case by simp
next
  case (Cons x xs)
  then show ?case by (cases "f x") (fastforce split: if_splits option.splits)+
qed

lemma convert_dataset_from:
  "convert_dataset d f = Inr ys \<Longrightarrow> y \<in> set ys \<Longrightarrow> \<exists>x. f x = Inr y"
  by (auto simp: convert_dataset_def split: sum.splits dest: convert_loop_from)

section \<open>The timestamp of a Format-A entry\<close>

text \<open>
  Claim C1. For a Format-A entry whose timestamp matches \<^verbatim>\<open>YYYY-MM-DDTHH:MM:SSZ\<close> the
  converted timestamp is to be the UTC epoch-millisecond value of that instant, so that
  \<^verbatim>\<open>2023-06-01T12:00:00Z\<close> gives 1685620800000, as the docstring of the function says.
  The function reads the fields as local time instead: in a process whose local zone is
  one hour east of UTC the docstring's own example gives 1685617200000.
\<close>

theorem convert_data1_entry_reads_local_time:
  "convert_data1_entry 3600 example1
     = Inr (JObj [(''sensor'', JStr ''sensor-1''), (''value'', JFloat (47 / 2)),
                  (''timestamp'', JInt 1685617200000)])"
  by (simp add: example1_def convert_data1_entry_def strptime_eval timestamp_eval)

text \<open>In a process running in UTC the example gives the documented value.\<close>

lemma convert_data1_entry_example_utc:
  "convert_data1_entry 0 example1
     = Inr (JObj [(''sensor'', JStr ''sensor-1''), (''value'', JFloat (47 / 2)),
                  (''timestamp'', JInt 1685620800000)])"
  by (simp add: example1_def convert_data1_entry_def strptime_eval timestamp_eval)

section \<open>The dataset converter\<close>




text \<open>
  So does a converter that fails with an exception of class \<^verbatim>\<open>Exception\<close> whose
  \<^verbatim>\<open>__str__\<close> raises: the handler evaluates \<^verbatim>\<open>str(e)\<close> for its warning, and what that
  raises leaves the function.
\<close>

lemma convert_dataset_handler_raises:
  "convert_dataset (JArr [JInt 1, JNull, JInt 2]) str_fails_on_null = Inl TypeError"
  by (simp add: convert_dataset_def str_fails_on_null_def)



text \<open>
  Claim C10. \<^verbatim>\<open>convert_dataset\<close> distributes over the concatenation of lists: converting
  \<open>xs @ ys\<close> gives the conversion of \<open>xs\<close> followed by the conversion of \<open>ys\<close>, for
  every converter function.
\<close>

theorem convert_dataset_append:
  "convert_dataset (JArr (xs @ ys)) f
     = append_results (convert_dataset (JArr xs) f) (convert_dataset (JArr ys) f)"
  by (simp add: convert_dataset_def convert_loop_append)

section \<open>Format B\<close>

text \<open>
  Claim C6, as stated: every Format-B entry with non-null \<^verbatim>\<open>deviceId\<close>, \<^verbatim>\<open>reading\<close>
  and \<^verbatim>\<open>time\<close> converts. An entry whose \<^verbatim>\<open>deviceId\<close> is the empty string has three
  non-null fields and is rejected.
\<close>

theorem convert_data2_entry_empty_deviceId:
  "JStr '''' \<noteq> JNull \<and> JInt 1 \<noteq> JNull \<and> JInt 2 \<noteq> JNull
   \<and> convert_data2_entry
         (JObj [(''deviceId'', JStr ''''), (''reading'', JInt 1), (''time'', JInt 2)])
       = Inl (ValueError MissingDeviceId)"
  by (simp add: convert_data2_entry_def)

text \<open>
  Claim C6, amended: every Format-B entry whose \<^verbatim>\<open>deviceId\<close> is truthy (not null, not
  empty, not zero, not false) and whose \<^verbatim>\<open>reading\<close> and \<^verbatim>\<open>time\<close> are not null converts
  to exactly \<^verbatim>\<open>{sensor: deviceId, value: reading, timestamp: time}\<close>, the three values
  unchanged; the fields are checked in the order \<^verbatim>\<open>deviceId\<close>, \<^verbatim>\<open>reading\<close>,
  \<^verbatim>\<open>time\<close>.
\<close>

theorem convert_data2_entry_passthrough:
  "(truthy (field kvs ''deviceId'') \<and> field kvs ''reading'' \<noteq> JNull \<and> field kvs ''time'' \<noteq> JNull
      \<longrightarrow> convert_data2_entry (JObj kvs)
            = Inr (JObj [(''sensor'', field kvs ''deviceId''), (''value'', field kvs ''reading''),
                         (''timestamp'', field kvs ''time'')]))
   \<and> (\<not> truthy (field kvs ''deviceId'')
      \<longrightarrow> convert_data2_entry (JObj kvs) = Inl (ValueError MissingDeviceId))
   \<and> (truthy (field kvs ''deviceId'') \<and> field kvs ''reading'' = JNull
      \<longrightarrow> convert_data2_entry (JObj kvs) = Inl (ValueError MissingReading))
   \<and> (truthy (field kvs ''deviceId'') \<and> field kvs ''reading'' \<noteq> JNull \<and> field kvs ''time'' = JNull
      \<longrightarrow> convert_data2_entry (JObj kvs) = Inl (ValueError MissingTime))"
  by (simp add: convert_data2_entry_JObj)

theorem convert_data2_entry_passthrough_witness:
  "truthy (JStr ''device-2'') \<and> JFloat (457 / 10) \<noteq> JNull \<and> JInt 1685624400000 \<noteq> JNull
   \<and> convert_data2_entry (JObj [(''deviceId'', JStr ''device-2''), (''reading'', JFloat (457 / 10)),
                               (''time'', JInt 1685624400000)])
       = Inr (JObj [(''sensor'', JStr ''device-2''), (''value'', JFloat (457 / 10)),
                    (''timestamp'', JInt 1685624400000)])
   \<and> convert_data2_entry (JObj [(''reading'', JInt 1), (''time'', JInt 2)])
       = Inl (ValueError MissingDeviceId)
   \<and> convert_data2_entry (JObj [(''deviceId'', JStr ''d''), (''reading'', JNull)])
       = Inl (ValueError MissingReading)
   \<and> convert_data2_entry (JObj [(''deviceId'', JStr ''d''), (''reading'', JInt 1)])
       = Inl (ValueError MissingTime)"
  using
    convert_data2_entry_passthrough
      [of "[(''deviceId'', JStr ''device-2''), (''reading'', JFloat (457 / 10)),
            (''time'', JInt 1685624400000)]"]
    convert_data2_entry_passthrough [of "[(''reading'', JInt 1), (''time'', JInt 2)]"]
    convert_data2_entry_passthrough [of "[(''deviceId'', JStr ''d''), (''reading'', JNull)]"]
    convert_data2_entry_passthrough [of "[(''deviceId'', JStr ''d''), (''reading'', JInt 1)]"]
  by (simp add: field_def)

section \<open>Zero is a reading and a time\<close>

text \<open>
  Claim C4. A Format-A entry whose \<^verbatim>\<open>value\<close> is zero, with a truthy \<^verbatim>\<open>id\<close> and a
  timestamp that converts, is converted, and its value is that zero. A Format-B entry
  whose \<^verbatim>\<open>reading\<close> is zero or whose \<^verbatim>\<open>time\<close> is zero, the other of the two not null
  and \<^verbatim>\<open>deviceId\<close> truthy, is converted. The errors "missing sensor value", "missing
  reading" and "missing time" arise only when the field is null or absent.
\<close>

theorem zero_is_valid:
  "(is_zero (field kvs ''value'') \<and> truthy (field kvs ''id'')
      \<and> parse_iso_to_epoch_ms tz (field kvs ''timestamp'') = Inr ms
      \<longrightarrow> convert_data1_entry tz (JObj kvs)
            = Inr (JObj [(''sensor'', field kvs ''id''), (''value'', field kvs ''value''),
                         (''timestamp'', JInt ms)]))
   \<and> ((is_zero (field kvs2 ''reading'') \<and> field kvs2 ''time'' \<noteq> JNull
        \<or> field kvs2 ''reading'' \<noteq> JNull \<and> is_zero (field kvs2 ''time''))
      \<and> truthy (field kvs2 ''deviceId'')
      \<longrightarrow> convert_data2_entry (JObj kvs2)
            = Inr (JObj [(''sensor'', field kvs2 ''deviceId''), (''value'', field kvs2 ''reading''),
                         (''timestamp'', field kvs2 ''time'')]))
   \<and> (convert_data1_entry tz (JObj kvs) = Inl (ValueError MissingSensorValue)
      \<longrightarrow> field kvs ''value'' = JNull)
   \<and> (convert_data2_entry (JObj kvs2) = Inl (ValueError MissingReading)
      \<longrightarrow> field kvs2 ''reading'' = JNull)
   \<and> (convert_data2_entry (JObj kvs2) = Inl (ValueError MissingTime)
      \<longrightarrow> field kvs2 ''time'' = JNull)"
proof -
  have a: "convert_data1_entry tz (JObj kvs)
            = Inr (JObj [(''sensor'', field kvs ''id''), (''value'', field kvs ''value''),
                         (''timestamp'', JInt ms)])"
    if "is_zero (field kvs ''value'')" "truthy (field kvs ''id'')"
       "parse_iso_to_epoch_ms tz (field kvs ''timestamp'') = Inr ms"
    using that parse_iso_truthy [of tz "field kvs ''timestamp''" ms]
    by (auto simp: convert_data1_entry_JObj is_zero_def)
  have b: "convert_data2_entry (JObj kvs2)
            = Inr (JObj [(''sensor'', field kvs2 ''deviceId''), (''value'', field kvs2 ''reading''),
                         (''timestamp'', field kvs2 ''time'')])"
    if "is_zero (field kvs2 ''reading'') \<and> field kvs2 ''time'' \<noteq> JNull
        \<or> field kvs2 ''reading'' \<noteq> JNull \<and> is_zero (field kvs2 ''time'')"
       "truthy (field kvs2 ''deviceId'')"
    using that by (auto simp: convert_data2_entry_JObj is_zero_def)
  have c: "field kvs ''value'' = JNull"
    if "convert_data1_entry tz (JObj kvs) = Inl (ValueError MissingSensorValue)"
    using that
    by (auto simp: convert_data1_entry_JObj split: if_splits sum.splits
        dest: parse_iso_error_kinds)
  have d: "field kvs2 ''reading'' = JNull"
    if "convert_data2_entry (JObj kvs2) = Inl (ValueError MissingReading)"
    using that by (auto simp: convert_data2_entry_JObj split: if_splits)
  have e: "field kvs2 ''time'' = JNull"
    if "convert_data2_entry (JObj kvs2) = Inl (ValueError MissingTime)"
    using that by (auto simp: convert_data2_entry_JObj split: if_splits)
  from a b c d e show ?thesis by blast
qed

theorem zero_is_valid_witness:
  "is_zero (JInt 0) \<and> is_zero (JFloat 0) \<and> truthy (JStr ''sensor-1'')
   \<and> parse_iso_to_epoch_ms 0 (JStr ''2023-06-01T12:00:00Z'') = Inr 1685620800000
   \<and> convert_data1_entry 0 (JObj [(''id'', JStr ''sensor-1''), (''value'', JInt 0),
                                  (''timestamp'', JStr ''2023-06-01T12:00:00Z'')])
       = Inr (JObj [(''sensor'', JStr ''sensor-1''), (''value'', JInt 0),
                    (''timestamp'', JInt 1685620800000)])
   \<and> convert_data2_entry (JObj [(''deviceId'', JStr ''d''), (''reading'', JFloat 0), (''time'', JInt 0)])
       = Inr (JObj [(''sensor'', JStr ''d''), (''value'', JFloat 0), (''timestamp'', JInt 0)])
   \<and> convert_data1_entry 0 (JObj [(''id'', JStr ''sensor-1''), (''value'', JNull),
                                  (''timestamp'', JStr ''2023-06-01T12:00:00Z'')])
       = Inl (ValueError MissingSensorValue)
   \<and> convert_data2_entry (JObj [(''deviceId'', JStr ''d''), (''time'', JInt 0)])
       = Inl (ValueError MissingReading)
   \<and> convert_data2_entry (JObj [(''deviceId'', JStr ''d''), (''reading'', JInt 0)])
       = Inl (ValueError MissingTime)"
proof -
  have p: "parse_iso_to_epoch_ms 0 (JStr ''2023-06-01T12:00:00Z'') = Inr 1685620800000"
    by (simp add: parse_iso_to_epoch_ms_def strptime_eval timestamp_eval)
  have m1: "convert_data1_entry 0 (JObj [(''id'', JStr ''sensor-1''), (''value'', JNull),
                                  (''timestamp'', JStr ''2023-06-01T12:00:00Z'')])
       = Inl (ValueError MissingSensorValue)"
    using p by (simp add: convert_data1_entry_JObj field_def)
  have m2: "convert_data2_entry (JObj [(''deviceId'', JStr ''d''), (''time'', JInt 0)])
       = Inl (ValueError MissingReading)"
    by (simp add: convert_data2_entry_JObj field_def)
  have m3: "convert_data2_entry (JObj [(''deviceId'', JStr ''d''), (''reading'', JInt 0)])
       = Inl (ValueError MissingTime)"
    by (simp add: convert_data2_entry_JObj field_def)
  show ?thesis
    using p m1 m2 m3
      zero_is_valid [of "[(''id'', JStr ''sensor-1''), (''value'', JInt 0),
                          (''timestamp'', JStr ''2023-06-01T12:00:00Z'')]"
                        0 1685620800000
                        "[(''deviceId'', JStr ''d''), (''reading'', JFloat 0), (''time'', JInt 0)]"]
      zero_is_valid [of "[(''id'', JStr ''sensor-1''), (''value'', JNull),
                          (''timestamp'', JStr ''2023-06-01T12:00:00Z'')]"
                        0 1685620800000
                        "[(''deviceId'', JStr ''d''), (''time'', JInt 0)]"]
      zero_is_valid [of "[(''id'', JStr ''sensor-1''), (''value'', JNull),
                          (''timestamp'', JStr ''2023-06-01T12:00:00Z'')]"
                        0 1685620800000
                        "[(''deviceId'', JStr ''d''), (''reading'', JInt 0)]"]
    by (simp add: field_def is_zero_def)
qed

section \<open>Missing input files\<close>

lemma main_missing_data1:
  assumes "files w data1_path = None"
  shows "main ev w = (w\<lparr>trace := trace w @ [Exists data1_path]\<rparr>, Inl (SystemExit 1))"
  using assms by (simp add: main_def main_try_def os_path_exists_def)

lemma main_missing_data2:
  assumes "files w data1_path \<noteq> None" "files w data2_path = None"
  shows "main ev w
           = (w\<lparr>trace := trace w @ [Exists data1_path, Exists data2_path]\<rparr>, Inl (SystemExit 1))"
  using assms by (auto simp add: main_def main_try_def os_path_exists_def)

text \<open>
  Claim C7. When \<^verbatim>\<open>data-1.json\<close> or \<^verbatim>\<open>data-2.json\<close> does not exist, the process ends
  with exit status 1, no file has been opened for reading or for writing, and the files,
  \<^verbatim>\<open>output.json\<close> among them, are as they were.
\<close>

theorem main_missing_input:
  assumes "files w data1_path = None \<or> files w data2_path = None"
  shows "exit_status (snd (main ev w)) = 1
         \<and> files (fst (main ev w)) = files w
         \<and> filter is_open (trace (fst (main ev w))) = filter is_open (trace w)"
proof (cases "files w data1_path = None")
  case True
  then show ?thesis by (simp add: main_missing_data1)
next
  case False
  with assms have "files w data2_path = None" by simp
  with False show ?thesis by (simp add: main_missing_data2)
qed

theorem main_missing_input_witness:
  "files only_data1 data2_path = None
   \<and> exit_status (snd (main utc only_data1)) = 1
   \<and> files (fst (main utc only_data1)) output_path = Some (RegularFile NotJson True True)
   \<and> filter is_open (trace (fst (main utc only_data1))) = []"
proof -
  have h: "files only_data1 data1_path = None \<or> files only_data1 data2_path = None"
    by (simp add: only_data1_def data1_path_def data2_path_def output_path_def)
  show ?thesis
    using main_missing_input [OF h, of utc]
    by (simp add: only_data1_def data1_path_def data2_path_def output_path_def)
qed

section \<open>The combined result\<close>

lemma has_key:
  "subscript e ''timestamp'' = Inr k \<Longrightarrow> ts_key e = k"
  by (simp add: ts_key_def)

lemma sort_keys_key:
  assumes "\<forall>e \<in> set xs. \<exists>k. subscript e ''timestamp'' = Inr k"
  shows "sort_keys xs = Inr (map (\<lambda>e. (ts_key e, e)) xs)"
  using assms
proof (induction xs)
  case Nil
  show ?case by simp
next
  case (Cons x xs)
  then obtain k where "subscript x ''timestamp'' = Inr k" by auto
  with Cons show ?case by (simp add: has_key)
qed

lemma insort_lt_key:
  fixes f :: "json \<Rightarrow> 'k::linorder"
  assumes "\<forall>y \<in> set ys. py_lt (ts_key y) (ts_key x) = Inr (f y < f x)"
  shows "insort_lt (ts_key x, x) (map (\<lambda>e. (ts_key e, e)) ys)
           = Inr (map (\<lambda>e. (ts_key e, e)) (insort_key f x ys))"
  using assms
proof (induction ys)
  case Nil
  show ?case by simp
next
  case (Cons y ys)
  then have lt: "py_lt (ts_key y) (ts_key x) = Inr (f y < f x)" by simp
  show ?case
  proof (cases "f y < f x")
    case True
    then have "\<not> f x \<le> f y" by simp
    with True show ?thesis using Cons lt by simp
  next
    case False
    then have "f x \<le> f y" by simp
    with False show ?thesis using lt by simp
  qed
qed

lemma sort_pairs_key:
  fixes f :: "json \<Rightarrow> 'k::linorder"
  assumes "\<forall>a \<in> set xs. \<forall>b \<in> set xs. py_lt (ts_key a) (ts_key b) = Inr (f a < f b)"
  shows "sort_pairs (map (\<lambda>e. (ts_key e, e)) xs)
           = Inr (map (\<lambda>e. (ts_key e, e)) (sort_key f xs))"
  using assms
proof (induction xs)
  case Nil
  show ?case by simp
next
  case (Cons x xs)
  have "\<forall>y \<in> set (sort_key f xs). py_lt (ts_key y) (ts_key x) = Inr (f y < f x)"
    using Cons.prems by simp
  from insort_lt_key [OF this] Cons show ?case by simp
qed

lemma sort_by_timestamp_key:
  fixes f :: "json \<Rightarrow> 'k::linorder"
  assumes "\<forall>e \<in> set xs. \<exists>k. subscript e ''timestamp'' = Inr k"
    and "\<forall>a \<in> set xs. \<forall>b \<in> set xs. py_lt (ts_key a) (ts_key b) = Inr (f a < f b)"
  shows "sort_by_timestamp xs = Inr (sort_key f xs)"
  using sort_keys_key [OF assms(1)] sort_pairs_key [OF assms(2)]
  by (simp add: sort_by_timestamp_def comp_def)

lemma ts_le_key:
  fixes f :: "json \<Rightarrow> 'k::linorder"
  assumes "subscript x ''timestamp'' = Inr kx" "subscript y ''timestamp'' = Inr ky"
    and "py_lt (ts_key y) (ts_key x) = Inr (f y < f x)"
  shows "ts_le x y \<longleftrightarrow> f x \<le> f y"
  using assms by (auto simp: ts_le_def has_key)

lemma sorted_wrt_ts_le:
  fixes f :: "json \<Rightarrow> 'k::linorder"
  assumes "\<forall>e \<in> set xs. \<exists>k. subscript e ''timestamp'' = Inr k"
    and "\<forall>a \<in> set xs. \<forall>b \<in> set xs. py_lt (ts_key a) (ts_key b) = Inr (f a < f b)"
    and "sorted (map f xs)"
  shows "sorted_wrt ts_le xs"
  using assms
proof (induction xs)
  case Nil
  show ?case by simp
next
  case (Cons x xs)
  have "ts_le x y" if "y \<in> set xs" for y
  proof -
    from Cons.prems(1) that obtain kx ky where
      k: "subscript x ''timestamp'' = Inr kx" "subscript y ''timestamp'' = Inr ky" by auto
    have "py_lt (ts_key y) (ts_key x) = Inr (f y < f x)" using Cons.prems(2) that by simp
    from ts_le_key [OF k this] Cons.prems(3) that show ?thesis by simp
  qed
  with Cons show ?case by simp
qed

lemma filter_stable:
  fixes f :: "json \<Rightarrow> 'k::linorder"
  assumes "\<forall>e \<in> set xs. ts_eq x e \<longleftrightarrow> Q \<and> f e = k"
  shows "filter (ts_eq x) (sort_key f xs) = filter (ts_eq x) xs"
proof (cases Q)
  case False
  have "filter (ts_eq x) ys = []" if "set ys = set xs" for ys
    using that assms False by (auto simp: filter_empty_conv)
  from this [of xs] this [of "sort_key f xs"] show ?thesis by simp
next
  case True
  have "filter (ts_eq x) ys = filter (\<lambda>e. f e = k) ys" if "set ys = set xs" for ys
    using that assms True by (intro filter_cong) auto
  from this [of xs] this [of "sort_key f xs"] show ?thesis
    by (simp add: sort_key_stable)
qed

text \<open>Keys that are numbers other than NaN.\<close>

lemma number_lt_rank: "number_lt a b \<longleftrightarrow> rank a < rank b"
  by (cases a; cases b) (simp_all add: rank_def less_prod_def)

lemma rank_inj: "rank a = rank b \<longleftrightarrow> a = b"
  by (cases a; cases b) (simp_all add: rank_def)

lemma py_lt_num:
  "num_val v = Some x \<Longrightarrow> num_val w = Some y \<Longrightarrow> py_lt v w = Inr (number_lt x y)"
  by (cases v; cases w) simp_all

lemma py_eq_num: "num_val w = Some y \<Longrightarrow> py_eq v w \<longleftrightarrow> num_val v = Some y"
  by (cases v; cases w) (auto split: option.splits)

lemma numeric_ts_key:
  "numeric_ts e \<Longrightarrow> \<exists>n. subscript e ''timestamp'' = Inr (ts_key e) \<and> num_val (ts_key e) = Some n
                        \<and> ts_rank e = rank n"
  by (auto simp: numeric_ts_def ts_key_def ts_rank_def rank_def split: sum.splits number.splits)

lemma py_lt_numeric_ts:
  assumes "numeric_ts a" "numeric_ts b"
  shows "py_lt (ts_key a) (ts_key b) = Inr (ts_rank a < ts_rank b)"
proof -
  from numeric_ts_key [OF assms(1)] numeric_ts_key [OF assms(2)] show ?thesis
    by (auto simp: py_lt_num number_lt_rank)
qed

lemma ts_eq_numeric_ts:
  assumes "numeric_ts e"
  shows "ts_eq x e \<longleftrightarrow> numeric_ts x \<and> ts_rank e = ts_rank x"
proof -
  from numeric_ts_key [OF assms] obtain n where
    n: "subscript e ''timestamp'' = Inr (ts_key e)" "num_val (ts_key e) = Some n"
    "ts_rank e = rank n" by blast
  show ?thesis
  proof (cases "subscript x ''timestamp''")
    case (Inl err)
    then show ?thesis using n by (simp add: ts_eq_def numeric_ts_def)
  next
    case (Inr kx)
    have "py_eq kx (ts_key e) \<longleftrightarrow> num_val kx = Some n" using n(2) by (rule py_eq_num)
    moreover have "numeric_ts x \<and> ts_rank e = ts_rank x \<longleftrightarrow> num_val kx = Some n"
      using Inr n(3) numeric_ts_key [of x]
      by (auto simp: numeric_ts_def has_key rank_inj ts_rank_def rank_def
          split: number.splits)
    ultimately show ?thesis using Inr n(1) by (simp add: ts_eq_def)
  qed
qed

text \<open>Keys that are strings.\<close>

lemma str_lt_less: "str_lt s t \<longleftrightarrow> s < t"
proof (induction s t rule: str_lt.induct)
  case (1 ys)
  show ?case by (cases ys) simp_all
next
  case (2 x xs)
  show ?case by simp
next
  case (3 x xs y ys)
  then show ?case by (auto simp: less_char_def)
qed

lemma string_ts_key:
  "string_ts e \<Longrightarrow> subscript e ''timestamp'' = Inr (JStr (ts_str e)) \<and> ts_key e = JStr (ts_str e)"
  by (auto simp: string_ts_def ts_key_def ts_str_def split: sum.splits json.splits)

lemma py_lt_string_ts:
  assumes "string_ts a" "string_ts b"
  shows "py_lt (ts_key a) (ts_key b) = Inr (ts_str a < ts_str b)"
  using string_ts_key [OF assms(1)] string_ts_key [OF assms(2)] by (simp add: str_lt_less)

lemma py_eq_JStr: "py_eq v (JStr t) \<longleftrightarrow> v = JStr t"
  by (cases v) auto

lemma ts_eq_string_ts:
  assumes "string_ts e"
  shows "ts_eq x e \<longleftrightarrow> string_ts x \<and> ts_str e = ts_str x"
proof (cases "subscript x ''timestamp''")
  case (Inl err)
  then show ?thesis using string_ts_key [OF assms] by (simp add: ts_eq_def string_ts_def)
next
  case (Inr kx)
  have e: "subscript e ''timestamp'' = Inr (JStr (ts_str e))"
    using string_ts_key [OF assms] by simp
  show ?thesis
  proof (cases "\<exists>s. kx = JStr s")
    case True
    then obtain s where s: "kx = JStr s" ..
    define t where "t = ts_str e"
    have x: "string_ts x" "ts_str x = s"
      using Inr s by (simp_all add: string_ts_def ts_str_def ts_key_def)
    have "ts_eq x e \<longleftrightarrow> s = t"
      using Inr s e by (simp add: ts_eq_def t_def [symmetric])
    with x show ?thesis by (auto simp: t_def)
  next
    case False
    then have "\<not> string_ts x" using Inr by (auto simp: string_ts_def split: json.splits)
    moreover have "\<not> py_eq kx (JStr (ts_str e))" using False by (simp add: py_eq_JStr)
    ultimately show ?thesis using Inr e by (simp add: ts_eq_def)
  qed
qed

lemma sort_keys_snd: "sort_keys xs = Inr kxs \<Longrightarrow> map snd kxs = xs"
  by (induction xs arbitrary: kxs) (auto split: sum.splits)

lemma mset_insort_lt: "insort_lt x ys = Inr zs \<Longrightarrow> mset zs = add_mset x (mset ys)"
  by (induction ys arbitrary: zs) (auto split: sum.splits bool.splits)

lemma mset_sort_pairs: "sort_pairs xs = Inr ys \<Longrightarrow> mset ys = mset xs"
  by (induction xs arbitrary: ys) (auto split: sum.splits dest: mset_insort_lt)


lemma sorted_result:
  fixes f :: "json \<Rightarrow> 'k::linorder"
  assumes k: "\<forall>e \<in> set xs. \<exists>k. subscript e ''timestamp'' = Inr k"
    and lt: "\<forall>a \<in> set xs. \<forall>b \<in> set xs. py_lt (ts_key a) (ts_key b) = Inr (f a < f b)"
    and eq: "\<forall>x. \<exists>Q k. \<forall>e \<in> set xs. ts_eq x e \<longleftrightarrow> Q \<and> f e = k"
  shows "\<exists>out. sort_by_timestamp xs = Inr out \<and> mset out = mset xs \<and> sorted_wrt ts_le out
           \<and> (\<forall>x. filter (ts_eq x) out = filter (ts_eq x) xs)"
proof -
  have s: "sort_by_timestamp xs = Inr (sort_key f xs)"
    using k lt by (rule sort_by_timestamp_key)
  have o: "sorted_wrt ts_le (sort_key f xs)"
    using k lt by (intro sorted_wrt_ts_le [where f = f]) simp_all
  have "filter (ts_eq x) (sort_key f xs) = filter (ts_eq x) xs" for x
  proof -
    from eq obtain Q k where "\<forall>e \<in> set xs. ts_eq x e \<longleftrightarrow> Q \<and> f e = k" by blast
    then show ?thesis by (rule filter_stable)
  qed
  with s o show ?thesis by simp
qed

lemma sorted_numeric:
  assumes "list_all numeric_ts xs"
  shows "\<exists>out. sort_by_timestamp xs = Inr out \<and> mset out = mset xs \<and> sorted_wrt ts_le out
           \<and> (\<forall>x. filter (ts_eq x) out = filter (ts_eq x) xs)"
proof (rule sorted_result [where f = ts_rank])
  show "\<forall>e \<in> set xs. \<exists>k. subscript e ''timestamp'' = Inr k"
    using assms numeric_ts_key by (fastforce simp: list_all_iff)
  show "\<forall>a \<in> set xs. \<forall>b \<in> set xs. py_lt (ts_key a) (ts_key b) = Inr (ts_rank a < ts_rank b)"
    using assms by (simp add: list_all_iff py_lt_numeric_ts)
  show "\<forall>x. \<exists>Q k. \<forall>e \<in> set xs. ts_eq x e \<longleftrightarrow> Q \<and> ts_rank e = k"
  proof
    fix x
    have "\<forall>e \<in> set xs. ts_eq x e \<longleftrightarrow> numeric_ts x \<and> ts_rank e = ts_rank x"
      using assms by (simp add: list_all_iff ts_eq_numeric_ts)
    then show "\<exists>Q k. \<forall>e \<in> set xs. ts_eq x e \<longleftrightarrow> Q \<and> ts_rank e = k" by blast
  qed
qed

lemma sorted_strings:
  assumes "list_all string_ts xs"
  shows "\<exists>out. sort_by_timestamp xs = Inr out \<and> mset out = mset xs \<and> sorted_wrt ts_le out
           \<and> (\<forall>x. filter (ts_eq x) out = filter (ts_eq x) xs)"
proof (rule sorted_result [where f = ts_str])
  show "\<forall>e \<in> set xs. \<exists>k. subscript e ''timestamp'' = Inr k"
    using assms string_ts_key by (fastforce simp: list_all_iff)
  show "\<forall>a \<in> set xs. \<forall>b \<in> set xs. py_lt (ts_key a) (ts_key b) = Inr (ts_str a < ts_str b)"
    using assms by (simp add: list_all_iff py_lt_string_ts)
  show "\<forall>x. \<exists>Q k. \<forall>e \<in> set xs. ts_eq x e \<longleftrightarrow> Q \<and> ts_str e = k"
  proof
    fix x
    have "\<forall>e \<in> set xs. ts_eq x e \<longleftrightarrow> string_ts x \<and> ts_str e = ts_str x"
      using assms by (simp add: list_all_iff ts_eq_string_ts)
    then show "\<exists>Q k. \<forall>e \<in> set xs. ts_eq x e \<longleftrightarrow> Q \<and> ts_str e = k" by blast
  qed
qed

text \<open>Keys that are numbers and strings, some of each.\<close>

lemma number_ts_key:
  "number_ts e \<Longrightarrow> subscript e ''timestamp'' = Inr (ts_key e) \<and> is_number (ts_key e)"
  by (auto simp: number_ts_def ts_key_def split: sum.splits)

lemma py_lt_number_string:
  "is_number v \<Longrightarrow> py_lt v (JStr s) = Inl TypeError \<and> py_lt (JStr s) v = Inl TypeError"
  by (cases v) (auto simp: is_number_def)

lemma py_lt_cross:
  assumes "number_ts a" "string_ts b"
  shows "py_lt (ts_key a) (ts_key b) = Inl TypeError" "py_lt (ts_key b) (ts_key a) = Inl TypeError"
  using number_ts_key [OF assms(1)] string_ts_key [OF assms(2)] py_lt_number_string
  by simp_all

lemma insort_lt_first:
  "insort_lt x (y # ys) = Inr zs \<Longrightarrow> \<exists>b. py_lt (fst y) (fst x) = Inr b"
  by (auto split: sum.splits)

lemma sort_pairs_one_kind:
  assumes "list_all (\<lambda>e. number_ts e \<or> string_ts e) xs"
    and "sort_pairs (map (\<lambda>e. (ts_key e, e)) xs) = Inr ys"
  shows "list_all number_ts xs \<or> list_all string_ts xs"
  using assms
proof (induction xs arbitrary: ys)
  case Nil
  show ?case by simp
next
  case (Cons x xs)
  from Cons.prems(2) obtain zs where
    zs: "sort_pairs (map (\<lambda>e. (ts_key e, e)) xs) = Inr zs" "insort_lt (ts_key x, x) zs = Inr ys"
    by (auto split: sum.splits)
  from Cons.IH [OF _ zs(1)] Cons.prems(1)
  have one: "list_all number_ts xs \<or> list_all string_ts xs" by simp
  show ?case
  proof (cases xs)
    case Nil
    with Cons.prems(1) show ?thesis by auto
  next
    case (Cons x' xs')
    from mset_sort_pairs [OF zs(1)] have m: "mset zs = mset (map (\<lambda>e. (ts_key e, e)) xs)" .
    then have "zs \<noteq> []" using Cons by auto
    then obtain z zs' where z: "zs = z # zs'" by (cases zs) auto
    have "z \<in> set zs" using z by simp
    then have "z \<in> set (map (\<lambda>e. (ts_key e, e)) xs)" using m by (metis set_mset_mset)
    then obtain y where y: "y \<in> set xs" "z = (ts_key y, y)" by auto
    from insort_lt_first [of "(ts_key x, x)" z zs' ys] zs(2) z y(2)
    obtain b where b: "py_lt (ts_key y) (ts_key x) = Inr b" by auto
    from Cons.prems(1) have kx: "number_ts x \<or> string_ts x" by simp
    from one show ?thesis
    proof
      assume n: "list_all number_ts xs"
      then have "number_ts y" using y(1) by (simp add: list_all_iff)
      with b py_lt_cross(1) [of y x] have "\<not> string_ts x" by auto
      with kx n show ?thesis by simp
    next
      assume n: "list_all string_ts xs"
      then have "string_ts y" using y(1) by (simp add: list_all_iff)
      with b py_lt_cross(2) [of x y] have "\<not> number_ts x" by auto
      with kx n show ?thesis by simp
    qed
  qed
qed

lemma insort_lt_error: "insort_lt x ys = Inl e \<Longrightarrow> \<exists>a b. py_lt a b = Inl e"
  by (induction ys) (auto split: sum.splits bool.splits)

lemma py_lt_error: "py_lt v w = Inl e \<Longrightarrow> e = TypeError"
  and py_lt_list_error: "py_lt_list vs ws = Inl e \<Longrightarrow> e = TypeError"
  by (induction v w and vs ws rule: py_lt_py_lt_list.induct)
     (auto split: option.splits if_splits)

lemma sort_pairs_error: "sort_pairs xs = Inl e \<Longrightarrow> e = TypeError"
proof (induction xs)
  case Nil
  then show ?case by simp
next
  case (Cons x xs)
  then show ?case
    by (auto split: sum.splits dest!: insort_lt_error dest: py_lt_error)
qed

lemma sort_mixed:
  assumes "list_all (\<lambda>e. number_ts e \<or> string_ts e) xs"
    and "\<not> list_all number_ts xs" "\<not> list_all string_ts xs"
  shows "sort_by_timestamp xs = Inl TypeError"
proof -
  have k: "\<forall>e \<in> set xs. \<exists>k. subscript e ''timestamp'' = Inr k"
    using assms(1) number_ts_key string_ts_key by (fastforce simp: list_all_iff)
  have s: "sort_keys xs = Inr (map (\<lambda>e. (ts_key e, e)) xs)" using k by (rule sort_keys_key)
  show ?thesis
  proof (cases "sort_pairs (map (\<lambda>e. (ts_key e, e)) xs)")
    case (Inl e)
    with sort_pairs_error [OF Inl] s show ?thesis by (simp add: sort_by_timestamp_def)
  next
    case (Inr ys)
    from sort_pairs_one_kind [OF assms(1) Inr] assms(2,3) show ?thesis by simp
  qed
qed

lemma convert_data1_entry_numeric_ts: "convert_data1_entry tz x = Inr y \<Longrightarrow> numeric_ts y"
  by (cases x) (auto simp: convert_data1_entry_JObj convert_data1_entry_def numeric_ts_def
      split: if_splits sum.splits)

text \<open>
  Claim C2, as stated: the final combined result is the concatenation, stably sorted
  ascending by timestamp. A Format-B entry whose \<^verbatim>\<open>time\<close> is NaN is converted, and
  every comparison with a NaN is false: of three entries with the times 2, NaN and 1 the
  sort moves none, and the result is not ascending.
\<close>

theorem combine_nan_unsorted:
  "combine 0 (JArr []) nan_times
     = Inr [JObj [(''sensor'', JStr ''a''), (''value'', JInt 1), (''timestamp'', JInt 2)],
            JObj [(''sensor'', JStr ''b''), (''value'', JInt 1), (''timestamp'', JNaN 0)],
            JObj [(''sensor'', JStr ''c''), (''value'', JInt 1), (''timestamp'', JInt 1)]]
   \<and> \<not> sorted_wrt ts_le
         [JObj [(''sensor'', JStr ''a''), (''value'', JInt 1), (''timestamp'', JInt 2)],
          JObj [(''sensor'', JStr ''b''), (''value'', JInt 1), (''timestamp'', JNaN 0)],
          JObj [(''sensor'', JStr ''c''), (''value'', JInt 1), (''timestamp'', JInt 1)]]"
  by (simp add: combine_def convert_dataset_def nan_times_def convert_data2_entry_def
      sort_by_timestamp_def ts_le_def is_number_def)

text \<open>
  Claim C2, amended: when every timestamp of the converted entries is a number other than
  NaN, or every timestamp is a string, the final combined result is a rearrangement of the
  converted Format-A entries followed by the converted Format-B entries in which no entry
  has a timestamp smaller than an earlier entry's, and in which, for every entry \<open>x\<close>,
  the entries whose timestamp equals that of \<open>x\<close> stand in the order they have in the
  concatenation. When the timestamps are numbers and strings, some of each, the sort
  raises \<^verbatim>\<open>TypeError\<close> and there is no result.
\<close>

theorem combine_stable_sort:
  assumes "convert_dataset data1 (convert_data1_entry tz) = Inr a"
    and "convert_dataset data2 convert_data2_entry = Inr b"
  shows "(list_all numeric_ts (a @ b) \<or> list_all string_ts (a @ b)
            \<longrightarrow> (\<exists>out. combine tz data1 data2 = Inr out
                    \<and> mset out = mset (a @ b)
                    \<and> sorted_wrt ts_le out
                    \<and> (\<forall>x. filter (ts_eq x) out = filter (ts_eq x) (a @ b))))
         \<and> (list_all (\<lambda>e. number_ts e \<or> string_ts e) (a @ b)
              \<and> \<not> list_all number_ts (a @ b) \<and> \<not> list_all string_ts (a @ b)
            \<longrightarrow> combine tz data1 data2 = Inl TypeError)"
proof -
  from convert_dataset_len [OF assms(1)] obtain n1 where n1: "py_len data1 = Inr n1" ..
  from convert_dataset_len [OF assms(2)] obtain n2 where n2: "py_len data2 = Inr n2" ..
  have c: "combine tz data1 data2 = sort_by_timestamp (a @ b)"
    using n1 n2 assms by (simp add: combine_def)
  show ?thesis
    unfolding c using sorted_numeric [of "a @ b"] sorted_strings [of "a @ b"] sort_mixed [of "a @ b"]
    by blast
qed

theorem combine_stable_sort_witness:
  "convert_dataset (JArr [example1]) (convert_data1_entry 0) = Inr converted1_example
   \<and> convert_dataset data2_example convert_data2_entry = Inr converted2_example
   \<and> list_all numeric_ts (converted1_example @ converted2_example)
   \<and> (\<exists>out. combine 0 (JArr [example1]) data2_example = Inr out
          \<and> mset out = mset (converted1_example @ converted2_example)
          \<and> sorted_wrt ts_le out
          \<and> (\<forall>x. filter (ts_eq x) out = filter (ts_eq x) (converted1_example @ converted2_example)))
   \<and> convert_dataset (JArr []) (convert_data1_entry 0) = Inr []
   \<and> convert_dataset string_times convert_data2_entry = Inr converted_string_times
   \<and> list_all string_ts converted_string_times
   \<and> (\<exists>out. combine 0 (JArr []) string_times = Inr out
          \<and> mset out = mset converted_string_times
          \<and> sorted_wrt ts_le out
          \<and> (\<forall>x. filter (ts_eq x) out = filter (ts_eq x) converted_string_times))
   \<and> convert_dataset mixed_times convert_data2_entry = Inr converted_mixed_times
   \<and> list_all (\<lambda>e. number_ts e \<or> string_ts e) converted_mixed_times
   \<and> \<not> list_all number_ts converted_mixed_times
   \<and> \<not> list_all string_ts converted_mixed_times
   \<and> combine 0 (JArr []) mixed_times = Inl TypeError"
proof -
  have h1: "convert_dataset (JArr [example1]) (convert_data1_entry 0) = Inr converted1_example"
    by (simp add: convert_dataset_def convert_data1_entry_example_utc converted1_example_def)
  have h2: "convert_dataset data2_example convert_data2_entry = Inr converted2_example"
    by (simp add: convert_dataset_def data2_example_def convert_data2_entry_def
        converted2_example_def)
  have h3: "list_all numeric_ts (converted1_example @ converted2_example)"
    by (simp add: converted1_example_def converted2_example_def numeric_ts_def)
  have e: "convert_dataset (JArr []) (convert_data1_entry 0) = Inr []"
    by (simp add: convert_dataset_def)
  have s1: "convert_dataset string_times convert_data2_entry = Inr converted_string_times"
    by (simp add: convert_dataset_def string_times_def convert_data2_entry_def
        converted_string_times_def)
  have s2: "list_all string_ts converted_string_times"
    by (simp add: converted_string_times_def string_ts_def)
  have m1: "convert_dataset mixed_times convert_data2_entry = Inr converted_mixed_times"
    by (simp add: convert_dataset_def mixed_times_def convert_data2_entry_def
        converted_mixed_times_def)
  have m2: "list_all (\<lambda>e. number_ts e \<or> string_ts e) converted_mixed_times"
    "\<not> list_all number_ts converted_mixed_times" "\<not> list_all string_ts converted_mixed_times"
    by (simp_all add: converted_mixed_times_def string_ts_def number_ts_def is_number_def)
  show ?thesis
    using h1 h2 h3 e s1 s2 m1 m2
      combine_stable_sort [OF h1 h2] combine_stable_sort [OF e s1] combine_stable_sort [OF e m1]
    by simp
qed

section \<open>The shape of the output entries\<close>

lemma mset_sort_by_timestamp:
  assumes "sort_by_timestamp xs = Inr out"
  shows "mset out = mset xs"
proof -
  from assms obtain kxs kys where k: "sort_keys xs = Inr kxs" "sort_pairs kxs = Inr kys"
    "out = map snd kys"
    by (auto simp: sort_by_timestamp_def split: sum.splits)
  have "mset (map snd kys) = mset (map snd kxs)"
    using mset_sort_pairs [OF k(2)] by simp
  with k(3) sort_keys_snd [OF k(1)] show ?thesis by simp
qed

lemma convert_data1_entry_unified:
  assumes "convert_data1_entry tz x = Inr e"
  shows "unified_entry e \<and> (\<exists>ms. subscript e ''timestamp'' = Inr (JInt ms))"
proof (cases x)
  case (JObj kvs)
  with assms show ?thesis
    by (auto simp: convert_data1_entry_JObj split: if_splits sum.splits)
qed (use assms in \<open>simp_all add: convert_data1_entry_def\<close>)

lemma convert_data2_entry_unified:
  assumes "convert_data2_entry x = Inr e"
  shows "unified_entry e"
proof (cases x)
  case (JObj kvs)
  with assms show ?thesis
    by (auto simp: convert_data2_entry_JObj split: if_splits)
qed (use assms in \<open>simp_all add: convert_data2_entry_def\<close>)

lemma days_before_year_1970: 
  assumes "1970 \<le> y" shows "719162 \<le> days_before_year y"
proof -
  define x where "x = int y - 1"
  have x: "1969 \<le> x" using assms by (simp add: x_def)
  have a: "x - 3 \<le> 4 * (x div 4)" using mult_div_mod_eq [of 4 x] pos_mod_bound [of 4 x] by linarith
  have b: "100 * (x div 100) \<le> x" using mult_div_mod_eq [of 100 x] pos_mod_sign [of 100 x] by linarith
  have c: "x - 399 \<le> 400 * (x div 400)" using mult_div_mod_eq [of 400 x] pos_mod_bound [of 400 x] by linarith
  show ?thesis
  proof (cases "x = 1969")
    case True
    then show ?thesis unfolding days_before_year_def x_def [symmetric] by simp
  next
    case False
    with x have "1970 \<le> x" by simp
    with a b c show ?thesis unfolding days_before_year_def x_def [symmetric] by linarith
  qed
qed

lemma utc_to_seconds_post_epoch:
  assumes "1970 \<le> year dt" "1 \<le> day dt"
  shows "epoch_seconds \<le> utc_to_seconds dt"
proof -
  define n where "n = ymd_to_ord (year dt) (month dt) (day dt)"
  have "719163 \<le> n"
    using days_before_year_1970 [OF assms(1)] assms(2)
    by (simp add: n_def ymd_to_ord_def days_before_month_def)
  then have "719163 * 24 * 60 * 60 \<le> n * 24 * 60 * 60" by simp
  also have "\<dots> \<le> ((n * 24 + int (hour dt)) * 60 + int (minute dt)) * 60 + int (second dt)"
    by (simp add: algebra_simps)
  finally show ?thesis
    by (simp add: utc_to_seconds_def epoch_seconds_def n_def)
qed

lemma timestamp_utc: "timestamp 0 dt = Inr secs \<Longrightarrow> secs = utc_to_seconds dt - epoch_seconds"
  by (auto simp: timestamp_def local_seconds_def Let_def split: if_splits)

lemma parse_iso_post_epoch:
  assumes "parse_iso_to_epoch_ms 0 v = Inr ms" "strptime v = Inr dt" "1970 \<le> year dt"
  shows "0 \<le> ms"
proof -
  from assms(1,2) obtain secs where s: "timestamp 0 dt = Inr secs" "ms = secs * 1000"
    by (auto simp: parse_iso_to_epoch_ms_def split: sum.splits)
  have "1 \<le> day dt" using strptime_valid [OF assms(2)] by (simp add: valid_datetime_def)
  from utc_to_seconds_post_epoch [OF assms(3) this] timestamp_utc [OF s(1)] s(2)
  show ?thesis by simp
qed

text \<open>
  Claim C9, as stated: every entry of the final output has a timestamp that is a
  non-negative integer for any date after the epoch. A Format-B entry whose \<^verbatim>\<open>time\<close> is
  1.5 milliseconds after the epoch is passed through, and the timestamp of the output
  entry is that fraction, not an integer.
\<close>

theorem combine_fractional_timestamp:
  "combine 0 (JArr []) (JArr [JObj [(''deviceId'', JStr ''device-2''), (''reading'', JInt 1),
                                   (''time'', JFloat (3 / 2))]])
     = Inr [JObj [(''sensor'', JStr ''device-2''), (''value'', JInt 1),
                  (''timestamp'', JFloat (3 / 2))]]"
  by (simp add: combine_def convert_dataset_def convert_data2_entry_def sort_by_timestamp_def)

text \<open>
  Claim C9, amended: every entry of the final output is a mapping with exactly the three
  keys sensor, value and timestamp, none of them null, and is the result of one of the two
  converters. The timestamp of an entry converted from Format A is an integer, and in a
  process running in UTC it is non-negative for every date from the year 1970 on. The
  timestamp of an entry converted from Format B is the \<^verbatim>\<open>time\<close> of the input entry,
  unchanged.
\<close>

theorem combine_unified_entries:
  "(combine tz data1 data2 = Inr out \<and> e \<in> set out
      \<longrightarrow> unified_entry e
          \<and> ((\<exists>x. convert_data1_entry tz x = Inr e) \<or> (\<exists>x. convert_data2_entry x = Inr e)))
   \<and> (convert_data1_entry tz x1 = Inr e1
      \<longrightarrow> (\<exists>ms. subscript e1 ''timestamp'' = Inr (JInt ms)))
   \<and> (convert_data1_entry 0 (JObj kvs1) = Inr e1' \<and> strptime (field kvs1 ''timestamp'') = Inr dt
        \<and> 1970 \<le> year dt
      \<longrightarrow> (\<exists>ms. subscript e1' ''timestamp'' = Inr (JInt ms) \<and> 0 \<le> ms))
   \<and> (convert_data2_entry (JObj kvs2) = Inr e2
      \<longrightarrow> subscript e2 ''timestamp'' = Inr (field kvs2 ''time''))"
proof -
  have a: "unified_entry e
          \<and> ((\<exists>x. convert_data1_entry tz x = Inr e) \<or> (\<exists>x. convert_data2_entry x = Inr e))"
    if c: "combine tz data1 data2 = Inr out" and m: "e \<in> set out"
  proof -
    from c obtain a b where ab: "convert_dataset data1 (convert_data1_entry tz) = Inr a"
      "convert_dataset data2 convert_data2_entry = Inr b" "sort_by_timestamp (a @ b) = Inr out"
      by (auto simp: combine_def split: sum.splits)
    from mset_sort_by_timestamp [OF ab(3)] have "set out = set (a @ b)"
      by (metis set_mset_mset)
    with m have "e \<in> set a \<or> e \<in> set b" by simp
    then show ?thesis
    proof
      assume "e \<in> set a"
      from convert_dataset_from [OF ab(1) this] obtain x where "convert_data1_entry tz x = Inr e" ..
      then show ?thesis using convert_data1_entry_unified by blast
    next
      assume "e \<in> set b"
      from convert_dataset_from [OF ab(2) this] obtain x where "convert_data2_entry x = Inr e" ..
      then show ?thesis using convert_data2_entry_unified by blast
    qed
  qed
  have b: "\<exists>ms. subscript e1 ''timestamp'' = Inr (JInt ms)"
    if "convert_data1_entry tz x1 = Inr e1"
    using convert_data1_entry_unified [OF that] by blast
  have c: "\<exists>ms. subscript e1' ''timestamp'' = Inr (JInt ms) \<and> 0 \<le> ms"
    if "convert_data1_entry 0 (JObj kvs1) = Inr e1'" "strptime (field kvs1 ''timestamp'') = Inr dt"
       "1970 \<le> year dt"
    using that parse_iso_post_epoch [of "field kvs1 ''timestamp''" _ dt]
    by (auto simp: convert_data1_entry_JObj split: if_splits sum.splits)
  have d: "subscript e2 ''timestamp'' = Inr (field kvs2 ''time'')"
    if "convert_data2_entry (JObj kvs2) = Inr e2"
    using that by (auto simp: convert_data2_entry_JObj split: if_splits)
  from a b c d show ?thesis by blast
qed

text \<open>
  The docstring example combined with the second dataset: the entry with the smallest
  timestamp comes first, then the two entries with equal timestamps, Format A before
  Format B.
\<close>

lemma combine_example:
  "combine 0 (JArr [example1]) data2_example
     = Inr [JObj [(''sensor'', JStr ''device-3''), (''value'', JInt 2), (''timestamp'', JInt 5)],
            JObj [(''sensor'', JStr ''sensor-1''), (''value'', JFloat (47 / 2)),
                  (''timestamp'', JInt 1685620800000)],
            JObj [(''sensor'', JStr ''device-2''), (''value'', JInt 1),
                  (''timestamp'', JInt 1685620800000)]]"
  by (simp add: combine_def convert_dataset_def convert_data1_entry_example_utc data2_example_def
      convert_data2_entry_def sort_by_timestamp_def)

theorem combine_unified_entries_witness:
  "combine 0 (JArr [example1]) data2_example
     = Inr [JObj [(''sensor'', JStr ''device-3''), (''value'', JInt 2), (''timestamp'', JInt 5)],
            JObj [(''sensor'', JStr ''sensor-1''), (''value'', JFloat (47 / 2)),
                  (''timestamp'', JInt 1685620800000)],
            JObj [(''sensor'', JStr ''device-2''), (''value'', JInt 1),
                  (''timestamp'', JInt 1685620800000)]]
   \<and> unified_entry (JObj [(''sensor'', JStr ''device-3''), (''value'', JInt 2), (''timestamp'', JInt 5)])
   \<and> strptime (JStr ''2023-06-01T12:00:00Z'')
       = Inr \<lparr>year = 2023, month = 6, day = 1, hour = 12, minute = 0, second = 0\<rparr>
   \<and> (\<exists>ms. subscript (JObj [(''sensor'', JStr ''sensor-1''), (''value'', JFloat (47 / 2)),
                             (''timestamp'', JInt 1685620800000)]) ''timestamp'' = Inr (JInt ms)
           \<and> 0 \<le> ms)
   \<and> convert_data2_entry (JObj [(''deviceId'', JStr ''device-3''), (''reading'', JInt 2), (''time'', JInt 5)])
       = Inr (JObj [(''sensor'', JStr ''device-3''), (''value'', JInt 2), (''timestamp'', JInt 5)])
   \<and> subscript (JObj [(''sensor'', JStr ''device-3''), (''value'', JInt 2), (''timestamp'', JInt 5)])
         ''timestamp'' = Inr (JInt 5)"
proof -
  have s: "strptime (JStr ''2023-06-01T12:00:00Z'')
             = Inr \<lparr>year = 2023, month = 6, day = 1, hour = 12, minute = 0, second = 0\<rparr>"
    by (simp add: strptime_eval)
  have c1: "convert_data1_entry 0 (JObj [(''id'', JStr ''sensor-1''), (''value'', JFloat (47 / 2)),
                    (''timestamp'', JStr ''2023-06-01T12:00:00Z'')])
     = Inr (JObj [(''sensor'', JStr ''sensor-1''), (''value'', JFloat (47 / 2)),
                  (''timestamp'', JInt 1685620800000)])"
    using convert_data1_entry_example_utc by (simp add: example1_def)
  have c2: "convert_data2_entry (JObj [(''deviceId'', JStr ''device-3''), (''reading'', JInt 2), (''time'', JInt 5)])
       = Inr (JObj [(''sensor'', JStr ''device-3''), (''value'', JInt 2), (''timestamp'', JInt 5)])"
    by (simp add: convert_data2_entry_def)
  show ?thesis
    using s c1 c2 combine_example
      combine_unified_entries
        [where tz = 0 and ?data1.0 = "JArr [example1]" and ?data2.0 = data2_example
           and out = "[JObj [(''sensor'', JStr ''device-3''), (''value'', JInt 2), (''timestamp'', JInt 5)],
            JObj [(''sensor'', JStr ''sensor-1''), (''value'', JFloat (47 / 2)),
                  (''timestamp'', JInt 1685620800000)],
            JObj [(''sensor'', JStr ''device-2''), (''value'', JInt 1),
                  (''timestamp'', JInt 1685620800000)]]"
           and e = "JObj [(''sensor'', JStr ''device-3''), (''value'', JInt 2), (''timestamp'', JInt 5)]"
           and ?x1.0 = example1
           and ?e1.0 = "JObj [(''sensor'', JStr ''sensor-1''), (''value'', JFloat (47 / 2)),
                  (''timestamp'', JInt 1685620800000)]"
           and ?kvs1.0 = "[(''id'', JStr ''sensor-1''), (''value'', JFloat (47 / 2)),
                    (''timestamp'', JStr ''2023-06-01T12:00:00Z'')]"
           and e1' = "JObj [(''sensor'', JStr ''sensor-1''), (''value'', JFloat (47 / 2)),
                  (''timestamp'', JInt 1685620800000)]"
           and dt = "\<lparr>year = 2023, month = 6, day = 1, hour = 12, minute = 0, second = 0\<rparr>"
           and ?kvs2.0 = "[(''deviceId'', JStr ''device-3''), (''reading'', JInt 2), (''time'', JInt 5)]"
           and ?e2.0 = "JObj [(''sensor'', JStr ''device-3''), (''value'', JInt 2), (''timestamp'', JInt 5)]"]
    by (simp add: field_def)
qed


end
